theory Spec2Isabelle
  imports Complex_Main
begin

section \<open>Hybrid forecasting with automatic SARIMA fallback\<close>

text \<open>
  A shallow embedding of \<^verbatim>\<open>services/sarimaFallbackService.py\<close> and
  \<^verbatim>\<open>services/forecastService.py\<close>.

  Conventions of the embedding.
  \<^item> Arithmetic is exact. A float of the input (a value of a history) is a
    \<^typ>\<open>real\<close>, and so is what the code computes from such floats without a
    division that can be by zero. The coefficients of the autoregression, which come
    out of such a division and of numpy's solvers, the forecasts of the statistical
    models, and whatever is computed from them, are of the type \<open>npfloat\<close>: a finite
    number, or a float that is not finite (\<^verbatim>\<open>nan\<close> or an infinity). numpy raises
    nothing when it divides by zero.
  \<^item> A method that mutates \<^verbatim>\<open>self\<close> takes the object and returns the pair of its
    result and the object afterwards.
  \<^item> A raised exception is the value \<open>None\<close> of the block that raises; every
    \<^verbatim>\<open>try/except\<close> of the source is a \<open>case\<close> on that value.
  \<^item> Calls into pandas, statsmodels, the Granite pipeline, \<^verbatim>\<open>numpy.linalg\<close>,
    \<^verbatim>\<open>numpy.polyfit\<close>, \<^verbatim>\<open>numpy.random\<close> and \<^verbatim>\<open>datetime\<close> are fields of an
    environment record \<open>env\<close>: nothing is assumed about what they return.
  \<^item> Orders, periods, window sizes and step counts are \<^typ>\<open>nat\<close>.
\<close>

subsection \<open>numpy and Python helpers\<close>

text \<open>
  A numpy float: \<open>Fin x\<close> is the finite number \<open>x\<close>, \<open>NonFinite\<close> is \<^verbatim>\<open>nan\<close>,
  \<^verbatim>\<open>inf\<close> or \<^verbatim>\<open>-inf\<close>. The sum and the product of a float that is not finite with
  any float are not finite (\<^verbatim>\<open>inf - inf\<close> and \<^verbatim>\<open>inf * 0\<close> are \<^verbatim>\<open>nan\<close>).
\<close>

datatype npfloat = Fin real | NonFinite

instantiation npfloat :: comm_monoid_add
begin

definition zero_npfloat :: npfloat where
  "zero_npfloat = Fin 0"

fun plus_npfloat :: "npfloat \<Rightarrow> npfloat \<Rightarrow> npfloat" where
  "plus_npfloat (Fin x) (Fin y) = Fin (x + y)"
| "plus_npfloat a b = NonFinite"

instance
proof
  fix u v w :: npfloat
  have nonfinite: "NonFinite + u = NonFinite" "u + NonFinite = NonFinite" for u
    by (cases u, simp_all)+
  show "0 + u = u"
    unfolding zero_npfloat_def by (cases u) auto
  show "u + v = v + u"
    by (cases u) (cases v, auto simp: nonfinite)+
  show "(u + v) + w = u + (v + w)"
    by (cases u) (cases v, (cases w, auto simp: nonfinite)+)+
qed

end

instantiation npfloat :: times
begin

fun times_npfloat :: "npfloat \<Rightarrow> npfloat \<Rightarrow> npfloat" where
  "times_npfloat (Fin x) (Fin y) = Fin (x * y)"
| "times_npfloat a b = NonFinite"

instance ..

end

text \<open>
  The quotient \<^verbatim>\<open>x / y\<close> of two finite floats of an array: by zero numpy warns and
  gives \<^verbatim>\<open>nan\<close> (for \<open>0 / 0\<close>) or an infinity, and raises nothing.
\<close>

definition np_divide :: "real \<Rightarrow> real \<Rightarrow> npfloat" where
  "np_divide x y = (if y = 0 then NonFinite else Fin (x / y))"

text \<open>
  \<^verbatim>\<open>np.mean\<close>. Of the empty array numpy gives \<^verbatim>\<open>nan\<close> with a warning; the code
  below takes the mean of arrays that hold at least one value.
\<close>

definition np_mean :: "real list \<Rightarrow> real" where
  "np_mean xs = sum_list xs / real (length xs)"

text \<open>\<^verbatim>\<open>np.var\<close>: the population variance.\<close>

definition np_var :: "real list \<Rightarrow> real" where
  "np_var xs = np_mean (map (\<lambda>x. (x - np_mean xs)\<^sup>2) xs)"

text \<open>The slice \<^verbatim>\<open>xs[-k:]\<close>: the last \<open>k\<close> elements, and all of \<open>xs\<close> when \<open>k = 0\<close>.\<close>

definition py_last :: "nat \<Rightarrow> 'a list \<Rightarrow> 'a list" where
  "py_last k xs = (if k = 0 then xs else drop (length xs - k) xs)"

text \<open>\<^verbatim>\<open>np.full(steps, v)\<close> and \<^verbatim>\<open>np.zeros(n)\<close>.\<close>

definition np_full :: "nat \<Rightarrow> 'a \<Rightarrow> 'a list" where
  "np_full steps v = replicate steps v"

text \<open>\<^verbatim>\<open>np.dot\<close> of two vectors raises when their lengths differ.\<close>

definition np_dot ::
  "('a::{comm_monoid_add, times}) list \<Rightarrow> 'a list \<Rightarrow> 'a option" where
  "np_dot xs ys =
     (if length xs = length ys then Some (sum_list (map2 (*) xs ys)) else None)"

text \<open>\<^verbatim>\<open>np.cumsum\<close>, with the running total as accumulator.\<close>

fun cumsum_from :: "('a::plus) \<Rightarrow> 'a list \<Rightarrow> 'a list" where
  "cumsum_from acc [] = []"
| "cumsum_from acc (x # xs) = (acc + x) # cumsum_from (acc + x) xs"

definition np_cumsum :: "('a::{zero, plus}) list \<Rightarrow> 'a list" where
  "np_cumsum xs = cumsum_from 0 xs"

text \<open>\<^verbatim>\<open>np.diff\<close>: \<open>out[i] = a[i+1] - a[i]\<close>.\<close>

definition np_diff :: "real list \<Rightarrow> real list" where
  "np_diff xs = map2 (-) (tl xs) xs"

text \<open>
  \<^verbatim>\<open>collections.deque(maxlen=n)\<close>: \<^verbatim>\<open>append\<close> adds on the right and, when the deque is
  then longer than \<open>maxlen\<close>, drops one element on the left.
\<close>

record 'a deque =
  maxlen :: nat
  items :: "'a list"

definition deque_new :: "nat \<Rightarrow> 'a deque" where
  "deque_new n = \<lparr>maxlen = n, items = []\<rparr>"

definition deque_append :: "'a deque \<Rightarrow> 'a \<Rightarrow> 'a deque" where
  "deque_append dq x =
     (let ys = items dq @ [x]
      in dq\<lparr>items := (if maxlen dq < length ys then tl ys else ys)\<rparr>)"

subsection \<open>SarimaConfig and the state of SarimaFallbackService\<close>

record SarimaConfig =
  cfg_p :: nat
  cfg_d :: nat
  cfg_q :: nat
  cfg_P :: nat
  cfg_D :: nat
  cfg_Q :: nat
  cfg_s :: nat
  maeThreshold :: real
  maeWindowSize :: nat
  autoSelectParams :: bool

text \<open>
  \<open>modelFitted\<close> records whether a fitted statsmodels object is held; \<open>running\<close> is
  the field \<^verbatim>\<open>_running\<close>.
\<close>

record SarimaFallbackService =
  config :: SarimaConfig
  predictionHistory :: "real deque"
  actualHistory :: "real deque"
  currentMae :: real
  fallbackActive :: bool
  modelFitted :: bool
  running :: bool

text \<open>\<^verbatim>\<open>SarimaFallbackService.__init__\<close>.\<close>

definition SarimaFallbackService_init :: "SarimaConfig \<Rightarrow> SarimaFallbackService" where
  "SarimaFallbackService_init cfg =
     \<lparr>config = cfg,
      predictionHistory = deque_new (maeWindowSize cfg),
      actualHistory = deque_new (maeWindowSize cfg),
      currentMae = 0,
      fallbackActive = False,
      modelFitted = False,
      running = True\<rparr>"

subsection \<open>MAE tracking and the fallback decision\<close>

text \<open>\<^verbatim>\<open>calculateMae\<close> (the same code in both services).\<close>

definition calculateMae :: "real list \<Rightarrow> real list \<Rightarrow> real" where
  "calculateMae predictions actuals =
     (if predictions = [] \<or> actuals = [] then 0
      else let n = min (length predictions) (length actuals)
           in if n = 0 then 0
              else sum_list (map (\<lambda>i. \<bar>predictions ! i - actuals ! i\<bar>) [0..<n]) / real n)"

text \<open>\<^verbatim>\<open>SarimaFallbackService.updateMaeTracking\<close>: the new MAE and the service afterwards.\<close>

definition updateMaeTracking ::
  "SarimaFallbackService \<Rightarrow> real \<Rightarrow> real \<Rightarrow> real \<times> SarimaFallbackService" where
  "updateMaeTracking svc predicted actual =
     (let ph = deque_append (predictionHistory svc) predicted;
          ah = deque_append (actualHistory svc) actual;
          mae = calculateMae (items ph) (items ah)
      in (mae, svc\<lparr>predictionHistory := ph, actualHistory := ah, currentMae := mae\<rparr>))"

text \<open>
  \<^verbatim>\<open>SarimaFallbackService.shouldUseFallback\<close>; \<open>graniteMae = None\<close> says that the primary
  model is unavailable.
\<close>

definition shouldUseFallback ::
  "SarimaFallbackService \<Rightarrow> real option \<Rightarrow> bool \<times> SarimaFallbackService" where
  "shouldUseFallback svc graniteMae =
     (case graniteMae of
        None \<Rightarrow> (True, if \<not> fallbackActive svc then svc\<lparr>fallbackActive := True\<rparr> else svc)
      | Some m \<Rightarrow>
          if maeThreshold (config svc) < m
          then (True, if \<not> fallbackActive svc then svc\<lparr>fallbackActive := True\<rparr> else svc)
          else (False, if fallbackActive svc then svc\<lparr>fallbackActive := False\<rparr> else svc))"

text \<open>\<^verbatim>\<open>resetMaeTracking\<close>.\<close>

definition resetMaeTracking :: "SarimaFallbackService \<Rightarrow> SarimaFallbackService" where
  "resetMaeTracking svc =
     svc\<lparr>predictionHistory := (predictionHistory svc)\<lparr>items := []\<rparr>,
         actualHistory := (actualHistory svc)\<lparr>items := []\<rparr>,
         currentMae := 0,
         fallbackActive := False\<rparr>"

text \<open>A sequence of calls to \<^verbatim>\<open>updateMaeTracking\<close>, one per (predicted, actual) pair.\<close>

fun updateMaeTracking_calls ::
  "SarimaFallbackService \<Rightarrow> (real \<times> real) list \<Rightarrow> SarimaFallbackService" where
  "updateMaeTracking_calls svc [] = svc"
| "updateMaeTracking_calls svc (c # cs) =
     updateMaeTracking_calls (snd (updateMaeTracking svc (fst c) (snd c))) cs"

subsection \<open>The environment: library calls\<close>

text \<open>How a call into \<^verbatim>\<open>numpy.linalg\<close> ends.\<close>

datatype 'a np_call = Returned 'a | LinAlgError | OtherError

text \<open>
  How \<^verbatim>\<open>SARIMAX(...).fit(...)\<close> followed by \<^verbatim>\<open>forecast(steps)\<close> ends: the fit raises,
  the fit returns and the forecast raises, or both return.
\<close>

datatype sarimax_outcome = FitRaised | ForecastRaised | Forecast "npfloat list"

text \<open>
  A value the Granite pipeline may hand back in its output column: a finite float, a
  float that is \<^verbatim>\<open>nan\<close> or infinite, a value \<^verbatim>\<open>float()\<close> refuses, or a nested array,
  list or tuple.
\<close>

datatype pyval = PyFloat real | PyNonFinite | PyNonNumeric | PySeq "pyval list"

text \<open>A point of a history: the dict \<^verbatim>\<open>{'timestamp': str, 'value': float}\<close>.\<close>

record point =
  pt_timestamp :: string
  pt_value :: real

text \<open>
  The library calls, over a type \<open>'t\<close> of parsed timestamps.
  \<^item> \<open>to_datetime\<close>: \<^verbatim>\<open>pd.to_datetime\<close>, \<open>None\<close> when it raises;
  \<^item> \<open>sortable\<close>: whether pandas can put a series with this index in order; when it
    cannot (a timestamp with a time zone beside one without), \<^verbatim>\<open>sort_index\<close> raises;
  \<^item> \<open>total_seconds a b\<close>: \<^verbatim>\<open>(a - b).total_seconds()\<close>, \<open>None\<close> when the
    subtraction raises;
  \<^item> \<open>ts_add t x\<close>: \<^verbatim>\<open>t + timedelta(seconds=x)\<close>, for a pandas \<^verbatim>\<open>Timestamp\<close> and for
    a \<^verbatim>\<open>datetime\<close> alike, \<open>None\<close> when it raises (out of range);
  \<^item> \<open>isoformat\<close>, \<open>tm_yday\<close>: \<^verbatim>\<open>t.isoformat()\<close>, \<^verbatim>\<open>t.timetuple().tm_yday\<close>;
  \<^item> \<open>resample_hourly_mean\<close>: the pandas pipeline of \<^verbatim>\<open>aggregateHourlyData\<close>
    (\<^verbatim>\<open>DataFrame\<close>, \<^verbatim>\<open>to_datetime\<close>, \<^verbatim>\<open>resample('h').agg(mean).dropna()\<close>), \<open>None\<close> when
    it raises;
  \<^item> \<open>acf\<close>: statsmodels' autocorrelation function, \<open>None\<close> when it raises;
  \<^item> \<open>SARIMAX\<close>, \<open>ExponentialSmoothing\<close>: the statsmodels models, fitted and asked for
    \<open>steps\<close> values;
  \<^item> \<open>linalg_solve\<close>, \<open>linalg_lstsq\<close>: numpy's solvers, on a matrix and a vector whose
    entries need not be finite;
  \<^item> \<open>polyfit1\<close> (degree one: slope and intercept), \<open>random_normal\<close> (the \<open>i\<close>-th
    draw of a call, given the scale): numpy;
  \<^item> \<open>from_pretrained\<close>: whether loading the Granite model and building its pipeline
    succeeds; \<open>granite_pipeline\<close>: the output column of the pipeline run on the
    recent points, \<open>None\<close> when anything before the sanitization raises.
\<close>

record 't env =
  GRANITE_AVAILABLE :: bool
  STATSMODELS_AVAILABLE :: bool
  to_datetime :: "string \<Rightarrow> 't option"
  sortable :: "'t list \<Rightarrow> bool"
  total_seconds :: "'t \<Rightarrow> 't \<Rightarrow> real option"
  ts_add :: "'t \<Rightarrow> real \<Rightarrow> 't option"
  isoformat :: "'t \<Rightarrow> string"
  tm_yday :: "'t \<Rightarrow> int"
  resample_hourly_mean :: "point list \<Rightarrow> point list option"
  acf :: "real list \<Rightarrow> nat \<Rightarrow> real list option"
  SARIMAX :: "SarimaConfig \<Rightarrow> ('t \<times> real) list \<Rightarrow> nat \<Rightarrow> sarimax_outcome"
  ExponentialSmoothing :: "real list \<Rightarrow> nat \<Rightarrow> npfloat list option"
  linalg_solve :: "npfloat list list \<Rightarrow> npfloat list \<Rightarrow> npfloat list np_call"
  linalg_lstsq :: "npfloat list list \<Rightarrow> npfloat list \<Rightarrow> npfloat list option"
  polyfit1 :: "real list \<Rightarrow> real list \<Rightarrow> (real \<times> real) option"
  random_normal :: "nat \<Rightarrow> real \<Rightarrow> real"
  from_pretrained :: "string \<Rightarrow> bool"
  granite_pipeline :: "point list \<Rightarrow> pyval list option"

subsection \<open>Differencing\<close>

text \<open>
  One pass of the seasonal loop of \<^verbatim>\<open>_applyDifferencing\<close>:
  \<^verbatim>\<open>if len(result) > s: result = result[s:] - result[:-s]\<close>. With \<open>s = 0\<close> the second
  slice is empty, and numpy broadcasts only a one-element array against it.
\<close>

definition seasonal_diff :: "nat \<Rightarrow> real list \<Rightarrow> real list option" where
  "seasonal_diff s result =
     (if s < length result
      then (if s = 0 then (if length result = 1 then Some [] else None)
            else Some (map2 (-) (drop s result) (take (length result - s) result)))
      else Some result)"

fun seasonal_diff_times :: "nat \<Rightarrow> nat \<Rightarrow> real list \<Rightarrow> real list option" where
  "seasonal_diff_times 0 s result = Some result"
| "seasonal_diff_times (Suc n) s result =
     (case seasonal_diff s result of
        None \<Rightarrow> None
      | Some r \<Rightarrow> seasonal_diff_times n s r)"

text \<open>One pass of the second loop: \<^verbatim>\<open>if len(result) > 1: result = np.diff(result)\<close>.\<close>

definition diff_step :: "real list \<Rightarrow> real list" where
  "diff_step result = (if 1 < length result then np_diff result else result)"

text \<open>\<^verbatim>\<open>_applyDifferencing(series, d, s, D)\<close>.\<close>

definition applyDifferencing :: "real list \<Rightarrow> nat \<Rightarrow> nat \<Rightarrow> nat \<Rightarrow> real list option" where
  "applyDifferencing series d s D =
     (case seasonal_diff_times D s series of
        None \<Rightarrow> None
      | Some r \<Rightarrow> Some ((diff_step ^^ d) r))"

text \<open>
  One pass of the first loop of \<^verbatim>\<open>_invertDifferencing\<close>:
  \<^verbatim>\<open>lastValue = originalSeries[-1]; result = lastValue + np.cumsum(result)\<close>.
\<close>

definition undiff_step ::
  "('a::{zero, plus}) list \<Rightarrow> 'a list \<Rightarrow> 'a list option" where
  "undiff_step originalSeries result =
     (if originalSeries = [] then None
      else Some (map (\<lambda>c. last originalSeries + c) (np_cumsum result)))"

text \<open>
  One pass of the second loop: when \<^verbatim>\<open>len(originalSeries) >= s\<close>, every value gets
  \<^verbatim>\<open>baseValues[i % s]\<close> added, \<^verbatim>\<open>baseValues = originalSeries[-s:]\<close>; \<^verbatim>\<open>i % 0\<close> raises.
\<close>

definition seasonal_undiff ::
  "('a::plus) list \<Rightarrow> nat \<Rightarrow> 'a list \<Rightarrow> 'a list option" where
  "seasonal_undiff originalSeries s result =
     (if s \<le> length originalSeries
      then (if s = 0 then (if result = [] then Some [] else None)
            else Some (map (\<lambda>(i, val). val + py_last s originalSeries ! (i mod s))
                        (enumerate 0 result)))
      else Some result)"

fun option_times :: "nat \<Rightarrow> ('a \<Rightarrow> 'a option) \<Rightarrow> 'a \<Rightarrow> 'a option" where
  "option_times 0 f x = Some x"
| "option_times (Suc n) f x = (case f x of None \<Rightarrow> None | Some y \<Rightarrow> option_times n f y)"

text \<open>
  \<^verbatim>\<open>_invertDifferencing(forecasts, originalSeries, d, s, D)\<close>, on arrays of reals and
  on arrays of floats that need not be finite alike.
\<close>

definition invertDifferencing ::
  "('a::{zero, plus}) list \<Rightarrow> 'a list \<Rightarrow> nat \<Rightarrow> nat \<Rightarrow> nat \<Rightarrow> 'a list option" where
  "invertDifferencing forecasts originalSeries d s D =
     (case option_times d (undiff_step originalSeries) forecasts of
        None \<Rightarrow> None
      | Some r \<Rightarrow> option_times D (seasonal_undiff originalSeries s) r)"

subsection \<open>Yule-Walker estimation and the simplified forecast\<close>

text \<open>
  Entry \<open>n - 1 + k\<close> of \<^verbatim>\<open>np.correlate(c, c, mode='full')\<close>: the sum of \<open>c[i + k] * c[i]\<close>.
\<close>

definition correlate_lag :: "real list \<Rightarrow> nat \<Rightarrow> real" where
  "correlate_lag c k = sum_list (map2 (*) (drop k c) c)"

definition centered :: "real list \<Rightarrow> real list" where
  "centered series = map (\<lambda>x. x - np_mean series) series"

text \<open>
  \<^verbatim>\<open>_fitArCoefficients(series, p)\<close>. The normalisation
  \<^verbatim>\<open>acorr[n-1:] / acorr[n-1]\<close> divides by the sum of the squares of the centred series,
  which is zero for a series held at one value: every entry of \<open>acorr\<close>, of \<open>R\<close> and of
  \<open>r\<close> is then \<^verbatim>\<open>nan\<close>, nothing is raised, and the solver is called on them.
\<close>

definition fitArCoefficients :: "'t env \<Rightarrow> real list \<Rightarrow> nat \<Rightarrow> npfloat list" where
  "fitArCoefficients e series p =
     (if p = 0 \<or> length series \<le> p then []
      else
        let n = length series;
            c = centered series;
            acorr = map (\<lambda>k. np_divide (correlate_lag c k) (correlate_lag c 0)) [0..<n];
            R = map (\<lambda>i. map (\<lambda>j. acorr ! (if j \<le> i then i - j else j - i)) [0..<p]) [0..<p];
            r = take p (drop 1 acorr)
        in case linalg_solve e R r of
             Returned phi \<Rightarrow> phi
           | LinAlgError \<Rightarrow>
               (case linalg_lstsq e R r of
                  Some phi \<Rightarrow> phi
                | None \<Rightarrow> replicate p 0)
           | OtherError \<Rightarrow> replicate p 0)"

text \<open>
  The loop \<^verbatim>\<open>for _ in range(steps)\<close> of \<^verbatim>\<open>_simpleSarimaForecast\<close>, with \<open>buffer\<close> and
  \<open>forecasts\<close> as they stand; \<open>None\<close> when \<^verbatim>\<open>np.dot\<close> raises.
\<close>

fun ar_forecast_loop ::
  "nat \<Rightarrow> nat \<Rightarrow> npfloat list \<Rightarrow> real list \<Rightarrow> npfloat list \<Rightarrow> npfloat list
     \<Rightarrow> npfloat list option" where
  "ar_forecast_loop 0 p arCoeffs diffSeries buffer forecasts = Some forecasts"
| "ar_forecast_loop (Suc n) p arCoeffs diffSeries buffer forecasts =
     (case (if 0 < p \<and> arCoeffs \<noteq> []
            then np_dot arCoeffs (rev (py_last p buffer))
            else Some (Fin (np_mean (py_last 10 diffSeries)))) of
        None \<Rightarrow> None
      | Some pred \<Rightarrow>
          ar_forecast_loop n p arCoeffs diffSeries (buffer @ [pred]) (forecasts @ [pred]))"

text \<open>
  The \<^verbatim>\<open>try\<close> block of \<^verbatim>\<open>_simpleSarimaForecast\<close>. The series and its differences
  are finite; the coefficients, and with them the forecasts, need not be.
\<close>

definition simpleSarimaForecast_try ::
  "'t env \<Rightarrow> SarimaConfig \<Rightarrow> real list \<Rightarrow> nat \<Rightarrow> npfloat list option" where
  "simpleSarimaForecast_try e cfg series steps =
     (case applyDifferencing series (cfg_d cfg) (cfg_s cfg) (cfg_D cfg) of
        None \<Rightarrow> None
      | Some diffSeries \<Rightarrow>
          if length diffSeries < cfg_p cfg + 1
          then Some (np_full steps (Fin (np_mean (py_last (min 10 (length series)) series))))
          else
            let arCoeffs = fitArCoefficients e diffSeries (cfg_p cfg);
                buffer = (if 0 < cfg_p cfg then map Fin (py_last (cfg_p cfg) diffSeries) else [])
            in case ar_forecast_loop steps (cfg_p cfg) arCoeffs diffSeries buffer [] of
                 None \<Rightarrow> None
               | Some forecasts \<Rightarrow>
                   invertDifferencing forecasts (map Fin series)
                     (cfg_d cfg) (cfg_s cfg) (cfg_D cfg))"

text \<open>\<^verbatim>\<open>_simpleSarimaForecast(series, steps)\<close>: the \<^verbatim>\<open>except\<close> branch is the mean of the last 10.\<close>

definition simpleSarimaForecast ::
  "'t env \<Rightarrow> SarimaConfig \<Rightarrow> real list \<Rightarrow> nat \<Rightarrow> npfloat list" where
  "simpleSarimaForecast e cfg series steps =
     (case simpleSarimaForecast_try e cfg series steps of
        Some result \<Rightarrow> result
      | None \<Rightarrow> np_full steps (Fin (np_mean (py_last 10 series))))"

text \<open>
  \<^verbatim>\<open>_statsmodelsSarimaForecast(series, steps)\<close>; \<open>series\<close> is the pandas series, sorted
  by its index.
\<close>

definition statsmodelsSarimaForecast ::
  "'t env \<Rightarrow> SarimaFallbackService \<Rightarrow> ('t \<times> real) list \<Rightarrow> nat
     \<Rightarrow> npfloat list \<times> SarimaFallbackService" where
  "statsmodelsSarimaForecast e svc series steps =
     (case SARIMAX e (config svc) series steps of
        FitRaised \<Rightarrow> (simpleSarimaForecast e (config svc) (map snd series) steps, svc)
      | ForecastRaised \<Rightarrow>
          (simpleSarimaForecast e (config svc) (map snd series) steps,
           svc\<lparr>modelFitted := True\<rparr>)
      | Forecast v \<Rightarrow> (v, svc\<lparr>modelFitted := True\<rparr>))"

subsection \<open>Seasonality detection\<close>

text \<open>\<^verbatim>\<open>max(peaks, key=lambda x: x[1])\<close>: the first peak of greatest height.\<close>

fun best_peak :: "nat \<times> real \<Rightarrow> (nat \<times> real) list \<Rightarrow> nat \<times> real" where
  "best_peak b [] = b"
| "best_peak b (x # xs) = best_peak (if snd b < snd x then x else b) xs"

text \<open>
  The autocorrelation of \<^verbatim>\<open>_detectSeasonality\<close>; \<open>None\<close> when \<^verbatim>\<open>acf\<close> raises. The
  division \<^verbatim>\<open>autocorr / autocorr[0]\<close> is by zero for a series held at one value: numpy
  then gives \<^verbatim>\<open>nan\<close> at every lag, HOL gives \<open>0\<close>. The values are only compared, with
  each other and with \<open>0.3\<close>, and each of these comparisons is false of \<^verbatim>\<open>nan\<close> and of
  \<open>0\<close> alike: no peak is found.
\<close>

definition detect_autocorr :: "'t env \<Rightarrow> real list \<Rightarrow> real list option" where
  "detect_autocorr e series =
     (let n = length series
      in if STATSMODELS_AVAILABLE e then acf e series (min 100 (n div 2))
         else let c = centered series;
                  a = map (correlate_lag c) [0..<min 100 (n div 2)]
              in Some (map (\<lambda>v. v / a ! 0) a))"

text \<open>\<^verbatim>\<open>_detectSeasonality(series)\<close>.\<close>

definition detectSeasonality :: "'t env \<Rightarrow> SarimaConfig \<Rightarrow> real list \<Rightarrow> nat" where
  "detectSeasonality e cfg series =
     (if length series < 50 then cfg_s cfg
      else case detect_autocorr e series of
             None \<Rightarrow> cfg_s cfg
           | Some autocorr \<Rightarrow>
               (let peaks =
                      map (\<lambda>i. (i, autocorr ! i))
                        (filter (\<lambda>i. autocorr ! (i - 1) < autocorr ! i
                                    \<and> autocorr ! (i + 1) < autocorr ! i
                                    \<and> 0.3 < autocorr ! i)
                           [2..<length autocorr - 1])
                in case peaks of
                     [] \<Rightarrow> cfg_s cfg
                   | pk # pks \<Rightarrow> fst (best_peak pk pks)))"

subsection \<open>SarimaFallbackService.forecast\<close>

record ForecastResult =
  fr_predictions :: "npfloat list"
  fr_timestamps :: "string list"
  fr_mae :: "real option"
  fr_modelUsed :: string
  fr_isFromFallback :: bool
  fr_confidence :: real

text \<open>The decimal digits of a number, for the f-string of \<open>modelUsed\<close>.\<close>

fun str_nat :: "nat \<Rightarrow> string" where
  "str_nat n =
     (if n < 10 then [char_of (48 + n)]
      else str_nat (n div 10) @ [char_of (48 + n mod 10)])"

definition sarima_model_name :: "SarimaConfig \<Rightarrow> string" where
  "sarima_model_name cfg =
     ''SARIMA('' @ str_nat (cfg_p cfg) @ '','' @ str_nat (cfg_d cfg) @ '','' @ str_nat (cfg_q cfg)
       @ '')('' @ str_nat (cfg_P cfg) @ '','' @ str_nat (cfg_D cfg) @ '','' @ str_nat (cfg_Q cfg)
       @ '')_'' @ str_nat (cfg_s cfg)"

text \<open>
  The confidence of \<^verbatim>\<open>forecast\<close>:
  \<^verbatim>\<open>variance = np.var(values[-50:]) if len(values) >= 50 else np.var(values)\<close>,
  \<^verbatim>\<open>max(0.5, min(0.95, 1.0 - (variance / (np.mean(values) ** 2 + 1e-6))))\<close>.
\<close>

definition forecast_confidence :: "real list \<Rightarrow> real" where
  "forecast_confidence values =
     (let variance = (if 50 \<le> length values then np_var (py_last 50 values) else np_var values)
      in max 0.5 (min 0.95 (1 - variance / ((np_mean values)\<^sup>2 + 1 / 1000000))))"

text \<open>
  The future timestamps of \<^verbatim>\<open>forecast\<close>:
  \<^verbatim>\<open>lastTimestamp + timedelta(seconds=interval * (i + 1))\<close> for \<open>i < steps\<close>, where
  \<open>interval\<close> is the distance of the last two timestamps; \<open>None\<close> when the
  subtraction or one of the additions raises.
\<close>

definition future_timestamps :: "'t env \<Rightarrow> 't list \<Rightarrow> nat \<Rightarrow> 't list option" where
  "future_timestamps e timestamps steps =
     (let lastTimestamp = last timestamps
      in case (if 2 \<le> length timestamps
               then total_seconds e (last timestamps) (timestamps ! (length timestamps - 2))
               else Some 1) of
           None \<Rightarrow> None
         | Some interval \<Rightarrow>
             those (map (\<lambda>i. ts_add e lastTimestamp (interval * real (i + 1))) [0..<steps]))"

text \<open>\<^verbatim>\<open>[pd.to_datetime(point['timestamp']) for point in dataHistory]\<close>.\<close>

definition parse_timestamps :: "'t env \<Rightarrow> point list \<Rightarrow> 't list option" where
  "parse_timestamps e dataHistory =
     those (map (\<lambda>pt. to_datetime e (pt_timestamp pt)) dataHistory)"

text \<open>
  The block \<^verbatim>\<open>if self.config.autoSelectParams: ...\<close> of \<^verbatim>\<open>forecast\<close>: the detected
  period is written to \<^verbatim>\<open>self.config.s\<close>.
\<close>

definition select_season ::
  "'t env \<Rightarrow> SarimaFallbackService \<Rightarrow> real list \<Rightarrow> SarimaFallbackService" where
  "select_season e svc values =
     (if autoSelectParams (config svc)
      then (let detectedSeason = detectSeasonality e (config svc) values
            in if detectedSeason \<noteq> cfg_s (config svc)
               then svc\<lparr>config := (config svc)\<lparr>cfg_s := detectedSeason\<rparr>\<rparr>
               else svc)
      else svc)"

text \<open>
  The block \<^verbatim>\<open>if STATSMODELS_AVAILABLE: ... else: ...\<close> of \<^verbatim>\<open>forecast\<close>; the pandas
  series is \<open>values\<close> indexed by \<open>timestamps\<close> and sorted by its index. Points of
  equal timestamp keep their order here; pandas does not promise one.
\<close>

definition run_sarima ::
  "('t::linorder) env \<Rightarrow> SarimaFallbackService \<Rightarrow> 't list \<Rightarrow> real list \<Rightarrow> nat
     \<Rightarrow> npfloat list \<times> SarimaFallbackService" where
  "run_sarima e svc timestamps values steps =
     (if STATSMODELS_AVAILABLE e
      then statsmodelsSarimaForecast e svc (sort_key fst (zip timestamps values)) steps
      else (simpleSarimaForecast e (config svc) values steps, svc))"

text \<open>
  \<^verbatim>\<open>SarimaFallbackService.forecast(dataHistory, steps)\<close>: the result (\<open>None\<close> for
  \<^verbatim>\<open>return None\<close>) and the service afterwards. The outer \<^verbatim>\<open>except\<close> returns \<open>None\<close> and
  keeps what was written to \<^verbatim>\<open>self\<close> before the exception. In the order of the source,
  an exception can come from \<^verbatim>\<open>pd.to_datetime\<close>, from \<^verbatim>\<open>series.sort_index()\<close>, from the
  subtraction of the last two timestamps and from the additions to the last one.
\<close>

definition forecast ::
  "('t::linorder) env \<Rightarrow> SarimaFallbackService \<Rightarrow> point list \<Rightarrow> nat
     \<Rightarrow> ForecastResult option \<times> SarimaFallbackService" where
  "forecast e svc dataHistory steps =
     (if \<not> running svc then (None, svc)
      else if length dataHistory < 10 then (None, svc)
      else
        let values = map pt_value dataHistory
        in case parse_timestamps e dataHistory of
             None \<Rightarrow> (None, svc)
           | Some timestamps \<Rightarrow>
               let svc1 = select_season e svc values
               in if \<not> sortable e timestamps then (None, svc1)
                  else
                    let (predictions, svc2) = run_sarima e svc1 timestamps values steps
                    in case future_timestamps e timestamps steps of
                         None \<Rightarrow> (None, svc2)
                       | Some futureTimestamps \<Rightarrow>
                           (Some \<lparr>fr_predictions = predictions,
                                  fr_timestamps = map (isoformat e) futureTimestamps,
                                  fr_mae = Some (currentMae svc2),
                                  fr_modelUsed = sarima_model_name (config svc2),
                                  fr_isFromFallback = True,
                                  fr_confidence = forecast_confidence values\<rparr>,
                            svc2))"

subsection \<open>ForecastService: state and construction\<close>

text \<open>
  The fields of \<^verbatim>\<open>ForecastService\<close> that its methods read or write. The Granite model
  and pipeline objects are present exactly when \<open>model_loaded\<close> (\<^verbatim>\<open>_model_loaded\<close>)
  holds. The MAE fields carry the prefix \<open>fs\<close>: the service of the fallback has
  fields of the same names.
\<close>

record ForecastService =
  model_name :: string
  forecast_horizon :: nat
  context_length :: nat
  use_granite :: bool
  sampleInterval :: int
  model_loaded :: bool
  fs_running :: bool
  sarimaFallback :: SarimaFallbackService
  enableAnnualSeasonality :: bool
  fs_maeThreshold :: real
  fs_currentMae :: real
  useFallback :: bool
  fs_predictionHistory :: "real deque"
  fs_actualHistory :: "real deque"

text \<open>
  \<^verbatim>\<open>ForecastService.__init__(model_name, forecast_horizon, context_length)\<close>; the values
  read from the process environment (\<^verbatim>\<open>FORECAST_SAMPLE_INTERVAL\<close>,
  \<^verbatim>\<open>FORECAST_MAE_THRESHOLD\<close>, \<^verbatim>\<open>FORECAST_SEASONAL_PERIOD_DAILY\<close>,
  \<^verbatim>\<open>FORECAST_ENABLE_ANNUAL_SEASONALITY\<close>) are arguments.
\<close>

definition ForecastService_init ::
  "'t env \<Rightarrow> string \<Rightarrow> nat \<Rightarrow> nat \<Rightarrow> int \<Rightarrow> real \<Rightarrow> nat \<Rightarrow> bool \<Rightarrow> ForecastService" where
  "ForecastService_init e name horizon context interval threshold seasonalPeriodDaily annual =
     \<lparr>model_name = name,
      forecast_horizon = horizon,
      context_length = context,
      use_granite = GRANITE_AVAILABLE e,
      sampleInterval = interval,
      model_loaded = False,
      fs_running = True,
      sarimaFallback =
        SarimaFallbackService_init
          \<lparr>cfg_p = 2, cfg_d = 1, cfg_q = 1, cfg_P = 1, cfg_D = 1, cfg_Q = 1,
           cfg_s = seasonalPeriodDaily, maeThreshold = threshold, maeWindowSize = 168,
           autoSelectParams = True\<rparr>,
      enableAnnualSeasonality = annual,
      fs_maeThreshold = threshold,
      fs_currentMae = 0,
      useFallback = (\<not> GRANITE_AVAILABLE e),
      fs_predictionHistory = deque_new 168,
      fs_actualHistory = deque_new 168\<rparr>"

text \<open>\<^verbatim>\<open>ForecastService.updateMaeTracking\<close>.\<close>

definition ForecastService_updateMaeTracking ::
  "ForecastService \<Rightarrow> real \<Rightarrow> real \<Rightarrow> real \<times> ForecastService" where
  "ForecastService_updateMaeTracking st predicted actual =
     (let ph = deque_append (fs_predictionHistory st) predicted;
          ah = deque_append (fs_actualHistory st) actual;
          mae = calculateMae (items ph) (items ah);
          svc1 = snd (updateMaeTracking (sarimaFallback st) predicted actual);
          (shouldFallback, svc2) = shouldUseFallback svc1 (Some mae)
      in (mae,
          st\<lparr>fs_predictionHistory := ph, fs_actualHistory := ah, fs_currentMae := mae,
             sarimaFallback := svc2,
             useFallback := (if shouldFallback \<noteq> useFallback st then shouldFallback
                             else useFallback st)\<rparr>))"

text \<open>\<^verbatim>\<open>ForecastService.shouldUseFallback\<close>.\<close>

definition ForecastService_shouldUseFallback ::
  "'t env \<Rightarrow> ForecastService \<Rightarrow> bool \<times> ForecastService" where
  "ForecastService_shouldUseFallback e st =
     (if \<not> GRANITE_AVAILABLE e then (True, st)
      else let (b, svc) = shouldUseFallback (sarimaFallback st) (Some (fs_currentMae st))
           in (b, st\<lparr>sarimaFallback := svc\<rparr>))"

subsection \<open>Aggregation and the two corrections\<close>

text \<open>\<^verbatim>\<open>aggregateHourlyData\<close>: on an exception the input is returned as it is.\<close>

definition aggregateHourlyData :: "'t env \<Rightarrow> point list \<Rightarrow> point list" where
  "aggregateHourlyData e data_history =
     (if data_history = [] then []
      else case resample_hourly_mean e data_history of
             Some hourlyData \<Rightarrow> hourlyData
           | None \<Rightarrow> data_history)"

text \<open>
  \<^verbatim>\<open>addAnnualSeasonalComponent\<close>: step \<open>i\<close> is read at \<^verbatim>\<open>baseTimestamp + timedelta(hours=i+1)\<close>;
  on an exception the predictions are returned as they are.
\<close>

definition addAnnualSeasonalComponent ::
  "'t env \<Rightarrow> ForecastService \<Rightarrow> npfloat list \<Rightarrow> 't \<Rightarrow> npfloat list" where
  "addAnnualSeasonalComponent e st predictions baseTimestamp =
     (if \<not> enableAnnualSeasonality st then predictions
      else case those (map (\<lambda>i. ts_add e baseTimestamp (3600 * real (i + 1)))
                         [0..<length predictions]) of
             None \<Rightarrow> predictions
           | Some futureTs \<Rightarrow>
               map2 (\<lambda>v t. v + Fin (cos (2 * pi * (real_of_int (tm_yday e t) - 355) / 365) * 3))
                 predictions futureTs)"

text \<open>
  \<^verbatim>\<open>applyHumidityCorrection(tempPredictions, humidityHistory, baseTimestamp)\<close>. The only
  exception of its \<^verbatim>\<open>try\<close> block that the model's types leave possible is \<^verbatim>\<open>min()\<close> of
  an empty list in the log message, reached when \<open>tempPredictions\<close> is empty; the handler
  then returns \<open>tempPredictions\<close>, which is what the block computed. \<open>humidity_slope\<close>
  is the expression bound to \<^verbatim>\<open>humiditySlope\<close>.
\<close>

definition humidity_slope :: "real list \<Rightarrow> real" where
  "humidity_slope humidityValues =
     (if 2 \<le> length humidityValues
      then (last humidityValues - hd humidityValues) / real (length humidityValues)
      else 0)"

definition applyHumidityCorrection ::
  "'t env \<Rightarrow> npfloat list \<Rightarrow> point list \<Rightarrow> 't \<Rightarrow> npfloat list" where
  "applyHumidityCorrection e tempPredictions humidityHistory baseTimestamp =
     (if humidityHistory = [] \<or> length humidityHistory < 10 then tempPredictions
      else
        let humidityHourly = aggregateHourlyData e humidityHistory
        in if humidityHourly = [] then tempPredictions
           else
             let humidityValues = map pt_value (py_last 24 humidityHourly);
                 avgHumidity = np_mean humidityValues;
                 humiditySlope = humidity_slope humidityValues
             in map (\<lambda>(i, tempValue).
                       tempValue
                       + Fin ((max 0 (min 100 (avgHumidity + humiditySlope * real (i + 1))) - 50)
                              * (5 / 100)))
                  (enumerate 0 tempPredictions))"

subsection \<open>The Granite predictor\<close>

text \<open>
  The \<^verbatim>\<open>while\<close> loop of \<^verbatim>\<open>_sanitize_predictions\<close>. The head of \<open>stack\<close> is the top of
  the Python stack: \<^verbatim>\<open>stack.pop()\<close> takes it, and \<^verbatim>\<open>stack.extend(reversed(xs))\<close> puts
  \<open>xs\<close> in front.
\<close>

function sanitize_loop :: "nat option \<Rightarrow> real list \<Rightarrow> pyval list \<Rightarrow> real list" where
  "sanitize_loop limit sanitized_values [] = sanitized_values"
| "sanitize_loop limit sanitized_values (current # stack) =
     (if (case limit of None \<Rightarrow> True | Some l \<Rightarrow> length sanitized_values < l)
      then (case current of
              PySeq vs \<Rightarrow> sanitize_loop limit sanitized_values (vs @ stack)
            | PyFloat x \<Rightarrow> sanitize_loop limit (sanitized_values @ [x]) stack
            | PyNonFinite \<Rightarrow> sanitize_loop limit sanitized_values stack
            | PyNonNumeric \<Rightarrow> sanitize_loop limit sanitized_values stack)
      else sanitized_values)"
  by pat_completeness auto
termination
  by (relation "measure (\<lambda>(limit, sanitized_values, stack). size_list size stack)") auto

text \<open>\<^verbatim>\<open>_sanitize_predictions(raw_predictions, limit)\<close>.\<close>

definition sanitize_predictions :: "pyval \<Rightarrow> nat option \<Rightarrow> real list" where
  "sanitize_predictions raw_predictions limit =
     (let sanitized_values = sanitize_loop limit [] [raw_predictions]
      in if sanitized_values = [] then []
         else case limit of
                None \<Rightarrow> sanitized_values
              | Some l \<Rightarrow> take l sanitized_values)"

text \<open>\<^verbatim>\<open>_load_granite_model\<close>.\<close>

definition load_granite_model :: "'t env \<Rightarrow> ForecastService \<Rightarrow> ForecastService" where
  "load_granite_model e st =
     (if model_loaded st \<or> \<not> GRANITE_AVAILABLE e then st
      else if from_pretrained e (model_name st) then st\<lparr>model_loaded := True\<rparr>
      else st\<lparr>use_granite := False\<rparr>)"

text \<open>
  \<^verbatim>\<open>_granite_forecast(data_history, steps)\<close>: \<open>None\<close> for \<^verbatim>\<open>return None\<close>. The sanitized
  values are finite floats.
\<close>

definition granite_forecast ::
  "'t env \<Rightarrow> ForecastService \<Rightarrow> point list \<Rightarrow> nat
     \<Rightarrow> npfloat list option \<times> ForecastService" where
  "granite_forecast e st data_history steps =
     (let st1 = load_granite_model e st
      in if \<not> model_loaded st1 then (None, st1)
         else case granite_pipeline e (py_last (context_length st1) data_history) of
                None \<Rightarrow> (None, st1)
              | Some column \<Rightarrow>
                  (let predictions =
                         sanitize_predictions (PySeq (take steps column)) (Some steps)
                   in if predictions = [] then (None, st1)
                      else (Some (map Fin predictions), st1)))"

subsection \<open>The fallbacks of the orchestrator\<close>

text \<open>\<^verbatim>\<open>_sarima_fallback_forecast(data_history, steps)\<close>.\<close>

definition sarima_fallback_forecast ::
  "('t::linorder) env \<Rightarrow> ForecastService \<Rightarrow> point list \<Rightarrow> nat
     \<Rightarrow> npfloat list option \<times> ForecastService" where
  "sarima_fallback_forecast e st data_history steps =
     (let (result, svc) = forecast e (sarimaFallback st) data_history steps
      in (map_option fr_predictions result, st\<lparr>sarimaFallback := svc\<rparr>))"

text \<open>
  \<^verbatim>\<open>_prepare_series(data_history)\<close>: \<open>None\<close> when a timestamp does not parse or
  \<^verbatim>\<open>sort_index\<close> raises.
\<close>

definition prepare_series ::
  "('t::linorder) env \<Rightarrow> ForecastService \<Rightarrow> point list \<Rightarrow> ('t \<times> real) list option" where
  "prepare_series e st data_history =
     (let recent_data = py_last (context_length st) data_history
      in case those (map (\<lambda>pt. to_datetime e (pt_timestamp pt)) recent_data) of
           None \<Rightarrow> None
         | Some timestamps \<Rightarrow>
             if sortable e timestamps
             then Some (sort_key fst (zip timestamps (map pt_value recent_data)))
             else None)"

text \<open>
  \<^verbatim>\<open>_simple_forecast(series, steps)\<close> on the values of the series: \<open>None\<close> when
  \<^verbatim>\<open>np.polyfit\<close> raises or the series is empty (\<^verbatim>\<open>series.values[-1]\<close>).
\<close>

definition simple_forecast :: "'t env \<Rightarrow> real list \<Rightarrow> nat \<Rightarrow> npfloat list option" where
  "simple_forecast e series_values steps =
     (let recent_values = py_last 50 series_values;
          n = length recent_values;
          trend =
            (if 1 < n
             then map_option (\<lambda>(a, b). (\<lambda>v. a * v + b))
                    (polyfit1 e (map real [0..<n]) recent_values)
             else Some (\<lambda>v. last recent_values));
          seasonal = (if 50 \<le> n then py_last 50 recent_values else replicate 50 0)
      in case trend of
           None \<Rightarrow> None
         | Some tr \<Rightarrow>
             if series_values = [] then None
             else Some (map (\<lambda>i. Fin (tr (real (n + i))
                                       + (seasonal ! (i mod length seasonal)
                                          - np_mean recent_values) * (3 / 10)
                                       + random_normal e i
                                           (sqrt (np_var recent_values) * (1 / 10))))
                          [0..<steps]))"

text \<open>\<^verbatim>\<open>_exponential_smoothing_forecast(series, steps)\<close>.\<close>

definition exponential_smoothing_forecast ::
  "'t env \<Rightarrow> ('t \<times> real) list \<Rightarrow> nat \<Rightarrow> npfloat list option" where
  "exponential_smoothing_forecast e series steps =
     (case ExponentialSmoothing e (map snd series) steps of
        Some fc \<Rightarrow> Some fc
      | None \<Rightarrow> simple_forecast e (map snd series) steps)"

subsection \<open>ForecastService.predict\<close>

text \<open>An entry of \<^verbatim>\<open>result['predictions']\<close> and the result dict itself.\<close>

record prediction =
  pr_timestamp :: string
  pr_value :: npfloat
  horizon_step :: nat
  hours_ahead :: int

text \<open>
  The key \<^verbatim>\<open>forecast_timestamp\<close> (the wall clock at the time of the call) is left out.
\<close>

record predict_result =
  predictions :: "prediction list"
  forecast_horizon_hours :: nat
  context_size :: nat
  original_data_points :: nat
  aggregated :: bool
  annual_seasonality_applied :: bool
  humidity_correction_applied :: bool
  model :: string
  model_type :: string

text \<open>\<^verbatim>\<open>int(x)\<close> of a float: truncation towards zero.\<close>

definition py_int :: "real \<Rightarrow> int" where
  "py_int x = (if 0 \<le> x then \<lfloor>x\<rfloor> else \<lceil>x\<rceil>)"

text \<open>
  The model selection of \<^verbatim>\<open>predict\<close>, one definition for each of its three \<^verbatim>\<open>if\<close>
  blocks. Each takes and returns \<^verbatim>\<open>forecast_values\<close> (\<open>None\<close> as in the source),
  \<^verbatim>\<open>model_used\<close> and the service.
\<close>

text \<open>\<^verbatim>\<open>if self.use_granite and len(workingData) >= self.context_length: ...\<close>\<close>

definition try_granite ::
  "'t env \<Rightarrow> ForecastService \<Rightarrow> point list \<Rightarrow> nat
     \<Rightarrow> npfloat list option \<times> string \<times> ForecastService" where
  "try_granite e st workingData steps =
     (if use_granite st \<and> context_length st \<le> length workingData
      then (let (forecast_values, st') = granite_forecast e st workingData steps
            in (forecast_values,
                if forecast_values \<noteq> None then ''IBM Granite TTM-R2'' else ''unknown'',
                st'))
      else (None, ''unknown'', st))"

text \<open>\<^verbatim>\<open>if forecast_values is None: ...\<close>, the primary fallback.\<close>

definition try_sarima ::
  "('t::linorder) env \<Rightarrow> npfloat list option \<times> string \<times> ForecastService \<Rightarrow> point list \<Rightarrow> nat
     \<Rightarrow> npfloat list option \<times> string \<times> ForecastService" where
  "try_sarima e sel workingData steps =
     (case sel of (forecast_values, model_used, st) \<Rightarrow>
        if forecast_values = None
        then (let (r, st') = sarima_fallback_forecast e st workingData steps
              in if r \<noteq> None then (r, ''SARIMA'', st'\<lparr>useFallback := True\<rparr>)
                 else (None, model_used, st'))
        else (forecast_values, model_used, st))"

text \<open>
  \<^verbatim>\<open>if forecast_values is None: ...\<close>, the secondary fallback. It always assigns
  \<^verbatim>\<open>forecast_values\<close>, or raises: the outcome is \<open>None\<close> when the exception leaves the
  \<^verbatim>\<open>try\<close> block of \<^verbatim>\<open>predict\<close>.
\<close>

definition try_exponential_smoothing ::
  "('t::linorder) env \<Rightarrow> npfloat list option \<times> string \<times> ForecastService \<Rightarrow> point list \<Rightarrow> nat
     \<Rightarrow> npfloat list option \<times> string \<times> ForecastService" where
  "try_exponential_smoothing e sel workingData steps =
     (case sel of (forecast_values, model_used, st) \<Rightarrow>
        if forecast_values = None
        then (case prepare_series e st workingData of
                None \<Rightarrow> (None, model_used, st)
              | Some series \<Rightarrow>
                  (exponential_smoothing_forecast e series steps,
                   ''Exponential Smoothing (Holt-Winters)'', st))
        else (forecast_values, model_used, st))"

text \<open>
  The three blocks in a row. What was written to \<^verbatim>\<open>self\<close> stays written when an
  exception leaves the \<^verbatim>\<open>try\<close> block.
\<close>

definition select_forecast ::
  "('t::linorder) env \<Rightarrow> ForecastService \<Rightarrow> point list \<Rightarrow> nat
     \<Rightarrow> npfloat list option \<times> string \<times> ForecastService" where
  "select_forecast e st workingData steps =
     try_exponential_smoothing e
       (try_sarima e (try_granite e st workingData steps) workingData steps)
       workingData steps"

text \<open>
  \<^verbatim>\<open>interval_hours\<close>: 1 for aggregated data, else the distance of the last two points
  in hours; \<open>None\<close> when a timestamp does not parse or the subtraction raises.
\<close>

definition interval_hours :: "'t env \<Rightarrow> bool \<Rightarrow> point list \<Rightarrow> real option" where
  "interval_hours e is_aggregated workingData =
     (if is_aggregated then Some 1
      else if 2 \<le> length workingData
      then (case (to_datetime e (pt_timestamp (last workingData)),
                  to_datetime e (pt_timestamp (workingData ! (length workingData - 2)))) of
              (Some t1, Some t2) \<Rightarrow> map_option (\<lambda>x. x / 3600) (total_seconds e t1 t2)
            | _ \<Rightarrow> None)
      else Some 1)"

text \<open>
  The two corrections of \<^verbatim>\<open>predict\<close>, in its order: the corrected values and the
  flag \<^verbatim>\<open>humidity_correction_applied\<close>.
\<close>

definition apply_corrections ::
  "'t env \<Rightarrow> ForecastService \<Rightarrow> npfloat list \<Rightarrow> 't \<Rightarrow> point list option
     \<Rightarrow> npfloat list \<times> bool" where
  "apply_corrections e st forecast_values last_timestamp exogenousData =
     (let fv = (if enableAnnualSeasonality st
                then addAnnualSeasonalComponent e st forecast_values last_timestamp
                else forecast_values)
      in case exogenousData of
           Some ex \<Rightarrow> (applyHumidityCorrection e fv ex last_timestamp, True)
         | None \<Rightarrow> (fv, False))"

text \<open>
  The timestamps \<^verbatim>\<open>last_timestamp + timedelta(hours=interval_hours * (i + 1))\<close> of the
  result; \<open>None\<close> when one of the additions raises.
\<close>

definition predict_timestamps :: "'t env \<Rightarrow> 't \<Rightarrow> real \<Rightarrow> nat \<Rightarrow> 't list option" where
  "predict_timestamps e last_timestamp ih n =
     those (map (\<lambda>i. ts_add e last_timestamp (3600 * (ih * real (i + 1)))) [0..<n])"

text \<open>
  The rest of the \<^verbatim>\<open>try\<close> block of \<^verbatim>\<open>predict\<close>, from \<^verbatim>\<open>last_timestamp\<close> on: the two
  corrections, the future timestamps and the result dict. \<open>None\<close> when it raises:
  \<^verbatim>\<open>workingData[-1]\<close> on an empty list, a timestamp that does not parse, or a future
  timestamp out of range. \<^verbatim>\<open>'Granite' in model_used\<close> holds for the first model name only.
\<close>

definition predict_finish ::
  "'t env \<Rightarrow> ForecastService \<Rightarrow> point list \<Rightarrow> point list \<Rightarrow> bool \<Rightarrow> nat \<Rightarrow> npfloat list
     \<Rightarrow> string \<Rightarrow> point list option \<Rightarrow> predict_result option" where
  "predict_finish e st data_history workingData is_aggregated steps forecast_values model_used
      exogenousData =
     (if workingData = [] then None
      else case to_datetime e (pt_timestamp (last workingData)) of
        None \<Rightarrow> None
      | Some last_timestamp \<Rightarrow>
          (case apply_corrections e st forecast_values last_timestamp exogenousData of
             (fv, humidity) \<Rightarrow>
               (case interval_hours e is_aggregated workingData of
                  None \<Rightarrow> None
                | Some ih \<Rightarrow>
                    (case predict_timestamps e last_timestamp ih (length fv) of
                       None \<Rightarrow> None
                     | Some future \<Rightarrow>
                         Some \<lparr>predictions =
                                  map (\<lambda>i. \<lparr>pr_timestamp = isoformat e (future ! i),
                                             pr_value = fv ! i,
                                             horizon_step = i + 1,
                                             hours_ahead = py_int (ih * real (i + 1))\<rparr>)
                                    [0..<length fv],
                                forecast_horizon_hours = steps,
                                context_size = length workingData,
                                original_data_points = length data_history,
                                aggregated = is_aggregated,
                                annual_seasonality_applied = enableAnnualSeasonality st,
                                humidity_correction_applied = humidity,
                                model = model_used,
                                model_type = (if model_used = ''IBM Granite TTM-R2''
                                              then ''granite'' else ''statistical'')\<rparr>))))"

text \<open>
  Whether \<^verbatim>\<open>predict\<close> aggregates,
  \<^verbatim>\<open>aggregateData and len(data_history) > self.sampleInterval\<close>, and the data it then
  works on.
\<close>

definition aggregates :: "ForecastService \<Rightarrow> point list \<Rightarrow> bool \<Rightarrow> bool" where
  "aggregates st data_history aggregateData \<longleftrightarrow>
     aggregateData \<and> sampleInterval st < int (length data_history)"

definition working_data :: "'t env \<Rightarrow> ForecastService \<Rightarrow> point list \<Rightarrow> bool \<Rightarrow> point list" where
  "working_data e st data_history aggregateData =
     (if aggregates st data_history aggregateData then aggregateHourlyData e data_history
      else data_history)"

text \<open>
  \<^verbatim>\<open>predict(data_history, aggregateData, exogenousData)\<close>: the result (\<open>None\<close> for
  \<^verbatim>\<open>return None\<close>) and the service afterwards.
\<close>

definition predict ::
  "('t::linorder) env \<Rightarrow> ForecastService \<Rightarrow> point list \<Rightarrow> bool \<Rightarrow> point list option
     \<Rightarrow> predict_result option \<times> ForecastService" where
  "predict e st data_history aggregateData exogenousData =
     (if length data_history < 10 then (None, st)
      else
        let workingData = working_data e st data_history aggregateData;
            steps = min (forecast_horizon st) 24;
            (forecast_values, model_used, st') = select_forecast e st workingData steps
        in case forecast_values of
             None \<Rightarrow> (None, st')
           | Some fv \<Rightarrow>
               (predict_finish e st' data_history workingData
                  (aggregates st data_history aggregateData) steps fv model_used exogenousData,
                st'))"

subsection \<open>What a forecast may write\<close>

text \<open>
  \<open>svc'\<close> is \<open>svc\<close> but for the seasonal period of the configuration and the fitted
  model.
\<close>

definition forecast_writes :: "SarimaFallbackService \<Rightarrow> SarimaFallbackService \<Rightarrow> bool" where
  "forecast_writes svc svc' \<longleftrightarrow>
     svc' = svc\<lparr>config := (config svc)\<lparr>cfg_s := cfg_s (config svc')\<rparr>,
                modelFitted := modelFitted svc'\<rparr>"

text \<open>
  \<open>st'\<close> is \<open>st\<close> but for \<open>use_granite\<close>, \<open>model_loaded\<close>, \<open>useFallback\<close> and, in the
  fallback service, the seasonal period and the fitted model.
\<close>

definition predict_writes :: "ForecastService \<Rightarrow> ForecastService \<Rightarrow> bool" where
  "predict_writes st st' \<longleftrightarrow>
     st' = st\<lparr>use_granite := use_granite st',
              model_loaded := model_loaded st',
              useFallback := useFallback st',
              sarimaFallback :=
                (sarimaFallback st)
                  \<lparr>config := (config (sarimaFallback st))
                               \<lparr>cfg_s := cfg_s (config (sarimaFallback st'))\<rparr>,
                   modelFitted := modelFitted (sarimaFallback st')\<rparr>\<rparr>"

subsection \<open>What the specification says of the confidence\<close>

text \<open>
  The specification's sentence: \<open>clamp(1 - variance/(mean\<^sup>2 + \<epsilon>), 0.5, 0.95)\<close>, variance
  and mean both over the last 50 (or fewer) raw values.
\<close>

definition spec_confidence :: "real list \<Rightarrow> real" where
  "spec_confidence values =
     (let w = py_last 50 values
      in max 0.5 (min 0.95 (1 - np_var w / ((np_mean w)\<^sup>2 + 1 / 1000000))))"

subsection \<open>What the specification says of the humidity trend\<close>



subsection \<open>Example inputs\<close>

text \<open>
  A clock for the hours of January 2024: a timestamp is \<^verbatim>\<open>2024-01-DDTHH:00:00\<close>, and
  its parsed value the whole seconds since \<^verbatim>\<open>2024-01-01T00:00:00\<close>.
\<close>

definition digit_char :: "nat \<Rightarrow> char" where
  "digit_char d = ''0123456789'' ! d"

definition digit_of :: "char \<Rightarrow> nat option" where
  "digit_of c =
     map_of [(CHR ''0'', 0), (CHR ''1'', 1), (CHR ''2'', 2), (CHR ''3'', 3), (CHR ''4'', 4),
             (CHR ''5'', 5), (CHR ''6'', 6), (CHR ''7'', 7), (CHR ''8'', 8), (CHR ''9'', 9)] c"

definition pad2 :: "nat \<Rightarrow> string" where
  "pad2 n = [digit_char (n div 10), digit_char (n mod 10)]"

definition iso_hour :: "nat \<Rightarrow> string" where
  "iso_hour h = ''2024-01-'' @ pad2 (1 + h div 24) @ ''T'' @ pad2 (h mod 24) @ '':00:00''"

definition parse_iso_hour :: "string \<Rightarrow> int option" where
  "parse_iso_hour s =
     (if length s = 19 \<and> take 8 s = ''2024-01-'' \<and> s ! 10 = CHR ''T'' \<and> drop 13 s = '':00:00''
      then (case (digit_of (s ! 8), digit_of (s ! 9), digit_of (s ! 11), digit_of (s ! 12)) of
              (Some a, Some b, Some c, Some d) \<Rightarrow>
                Some (3600 * int (24 * (10 * a + b - 1) + (10 * c + d)))
            | _ \<Rightarrow> None)
      else None)"

text \<open>Hourly points from midnight of the first of January on, with the given values.\<close>

definition hourly_points :: "real list \<Rightarrow> point list" where
  "hourly_points vs = map (\<lambda>(h, v). \<lparr>pt_timestamp = iso_hour h, pt_value = v\<rparr>) (enumerate 0 vs)"

text \<open>
  An installation with neither Granite nor statsmodels, whose numpy solvers raise, on
  data that already is hourly (resampling returns it as it is).
\<close>

definition env_plain :: "int env" where
  "env_plain =
     \<lparr>GRANITE_AVAILABLE = False,
      STATSMODELS_AVAILABLE = False,
      to_datetime = parse_iso_hour,
      sortable = (\<lambda>ts. True),
      total_seconds = (\<lambda>a b. Some (real_of_int (a - b))),
      ts_add = (\<lambda>t x. Some (t + \<lfloor>x\<rfloor>)),
      isoformat = (\<lambda>t. iso_hour (nat (t div 3600))),
      tm_yday = (\<lambda>t. 1 + t div 86400),
      resample_hourly_mean = Some,
      acf = (\<lambda>series nlags. None),
      SARIMAX = (\<lambda>cfg series steps. FitRaised),
      ExponentialSmoothing = (\<lambda>series steps. None),
      linalg_solve = (\<lambda>R r. LinAlgError),
      linalg_lstsq = (\<lambda>R r. None),
      polyfit1 = (\<lambda>x y. None),
      random_normal = (\<lambda>i scale. 0),
      from_pretrained = (\<lambda>name. False),
      granite_pipeline = (\<lambda>recent. None)\<rparr>"

text \<open>
  An installation with Granite, whose pipeline returns six values, the second of them
  \<^verbatim>\<open>nan\<close>.
\<close>

definition env_granite :: "int env" where
  "env_granite =
     env_plain
       \<lparr>GRANITE_AVAILABLE := True,
        from_pretrained := (\<lambda>name. True),
        granite_pipeline :=
          (\<lambda>recent. Some [PyFloat (43 / 2), PyNonFinite, PyFloat 22, PyFloat (45 / 2),
                           PyFloat 23, PyFloat (47 / 2)])\<rparr>"

text \<open>Ten hourly points 20, 21, ..., 29.\<close>

definition history_10 :: "point list" where
  "history_10 = hourly_points [20, 21, 22, 23, 24, 25, 26, 27, 28, 29]"

text \<open>Fifty-one hourly points: 53, then 1 and 3 in turn.\<close>

definition history_51 :: "point list" where
  "history_51 = hourly_points (53 # concat (replicate 25 [1, 3]))"






text \<open>Twenty-four hourly humidity points held at 90.\<close>

definition humidity_90 :: "point list" where
  "humidity_90 = hourly_points (replicate 24 90)"

text \<open>The defaults of the dataclass \<^verbatim>\<open>SarimaConfig\<close>.\<close>

definition SarimaConfig_default :: SarimaConfig where
  "SarimaConfig_default =
     \<lparr>cfg_p = 1, cfg_d = 1, cfg_q = 1, cfg_P = 1, cfg_D = 1, cfg_Q = 0, cfg_s = 24,
      maeThreshold = 5, maeWindowSize = 50, autoSelectParams = True\<rparr>"

text \<open>The name of the Granite model, the default of the constructor.\<close>

definition granite_name :: string where
  "granite_name = ''ibm-granite/granite-timeseries-ttm-r2''"

text \<open>A configuration whose MAE window holds two pairs.\<close>

definition config_window_2 :: SarimaConfig where
  "config_window_2 = SarimaConfig_default\<lparr>maeWindowSize := 2\<rparr>"

text \<open>A configuration with the seasonal period 0.\<close>

definition config_period_0 :: SarimaConfig where
  "config_period_0 = SarimaConfig_default\<lparr>cfg_s := 0\<rparr>"

text \<open>A fallback service after \<^verbatim>\<open>stop()\<close>.\<close>

definition sarima_stopped :: SarimaFallbackService where
  "sarima_stopped = (SarimaFallbackService_init SarimaConfig_default)\<lparr>running := False\<rparr>"

text \<open>
  Orchestrators as the constructor builds them, with the annual seasonality switched
  off: without Granite; with Granite and the default horizon and context; with Granite,
  five steps of horizon and ten points of context.
\<close>

definition service_plain :: ForecastService where
  "service_plain = ForecastService_init env_plain granite_name 24 168 3600 5 24 False"

definition service_granite :: ForecastService where
  "service_granite = ForecastService_init env_granite granite_name 24 168 3600 5 24 False"

definition service_granite_short :: ForecastService where
  "service_granite_short = ForecastService_init env_granite granite_name 5 10 3600 5 24 False"

text \<open>The ten points with a first timestamp that does not parse.\<close>

definition history_unparsed :: "point list" where
  "history_unparsed = (hd history_10)\<lparr>pt_timestamp := ''yesterday''\<rparr> # tl history_10"

text \<open>The plain installation with a clock on which every addition is out of range.\<close>

definition env_out_of_range :: "int env" where
  "env_out_of_range = env_plain\<lparr>ts_add := (\<lambda>t x. None)\<rparr>"

text \<open>
  The plain installation on timestamps that pandas cannot put in order (a time zone on
  some of them only).
\<close>

definition env_unsortable :: "int env" where
  "env_unsortable = env_plain\<lparr>sortable := (\<lambda>ts. False)\<rparr>"

text \<open>
  The plain installation with a solver that hands back \<^verbatim>\<open>nan\<close> for a system that
  holds a float that is not finite, and raises \<^verbatim>\<open>LinAlgError\<close> as before for the others.
\<close>

definition env_nan_solver :: "int env" where
  "env_nan_solver =
     env_plain
       \<lparr>linalg_solve :=
          (\<lambda>R r. if NonFinite \<in> set (concat R @ r)
                 then Returned (replicate (length r) NonFinite)
                 else LinAlgError)\<rparr>"

text \<open>Two hundred hourly points held at 20.\<close>

definition history_200 :: "point list" where
  "history_200 = hourly_points (replicate 200 20)"

text \<open>Fifty-two hourly points of a wave of period 4, and the history of them.\<close>

definition wave_52 :: "real list" where
  "wave_52 = concat (replicate 13 [1, 0, -1, 0])"

definition history_52 :: "point list" where
  "history_52 = hourly_points wave_52"

section \<open>Properties\<close>

subsection \<open>Lists and options\<close>

lemma those_map_Some_iff:
  "those (map f xs) \<noteq> None \<longleftrightarrow> (\<forall>x\<in>set xs. f x \<noteq> None)"
  by (induction xs) (auto split: option.splits)

lemma those_length: "those xs = Some ys \<Longrightarrow> length ys = length xs"
  by (induction xs arbitrary: ys) (auto split: option.splits)

subsection \<open>The bounded FIFOs\<close>

lemma items_deque_append:
  "length (items dq) \<le> maxlen dq \<Longrightarrow>
   items (deque_append dq x) = drop (Suc (length (items dq)) - maxlen dq) (items dq @ [x])"
  by (cases "items dq") (auto simp: deque_append_def Let_def Suc_diff_le)

lemma drop_window:
  "drop (length (drop (length ys - W) ys @ zs) - W) (drop (length ys - W) ys @ zs)
   = drop (length (ys @ zs) - W) (ys @ zs)"
proof (cases "length ys \<le> W")
  case True
  then show ?thesis by simp
next
  case False
  then have e: "length ys + length zs - W = length zs + (length ys - W)"
    by simp
  from False have "length ys - (length ys - W) = W"
    by simp
  then show ?thesis
    by (simp add: e)
qed

lemma updateMaeTracking_calls_items:
  assumes "maxlen (predictionHistory svc) = W" "maxlen (actualHistory svc) = W"
    and "length (items (predictionHistory svc)) \<le> W"
    and "length (items (actualHistory svc)) \<le> W"
  shows "items (predictionHistory (updateMaeTracking_calls svc cs)) =
           drop (length (items (predictionHistory svc) @ map fst cs) - W)
                (items (predictionHistory svc) @ map fst cs)
       \<and> items (actualHistory (updateMaeTracking_calls svc cs)) =
           drop (length (items (actualHistory svc) @ map snd cs) - W)
                (items (actualHistory svc) @ map snd cs)
       \<and> maxlen (predictionHistory (updateMaeTracking_calls svc cs)) = W
       \<and> maxlen (actualHistory (updateMaeTracking_calls svc cs)) = W"
  using assms
proof (induction cs arbitrary: svc)
  case Nil
  then show ?case by simp
next
  case (Cons c cs)
  let ?svc' = "snd (updateMaeTracking svc (fst c) (snd c))"
  have p: "items (predictionHistory ?svc') =
        drop (length (items (predictionHistory svc) @ [fst c]) - W) (items (predictionHistory svc) @ [fst c])"
    using Cons.prems by (simp add: updateMaeTracking_def Let_def items_deque_append)
  have a: "items (actualHistory ?svc') =
        drop (length (items (actualHistory svc) @ [snd c]) - W) (items (actualHistory svc) @ [snd c])"
    using Cons.prems by (simp add: updateMaeTracking_def Let_def items_deque_append)
  have m: "maxlen (predictionHistory ?svc') = W" "maxlen (actualHistory ?svc') = W"
    using Cons.prems by (simp_all add: updateMaeTracking_def Let_def deque_append_def)
  have l: "length (items (predictionHistory ?svc')) \<le> W" "length (items (actualHistory ?svc')) \<le> W"
    unfolding p a by simp_all
  note IH = Cons.IH [OF m l]
  show ?case
    using IH drop_window [of "items (predictionHistory svc) @ [fst c]" W "map fst cs"]
      drop_window [of "items (actualHistory svc) @ [snd c]" W "map snd cs"]
    unfolding p a by simp
qed

subsection \<open>Lengths of the simplified forecast\<close>

lemma length_cumsum_from: "length (cumsum_from acc xs) = length xs"
  by (induction xs arbitrary: acc) auto

lemma length_undiff_step: "undiff_step orig r = Some r' \<Longrightarrow> length r' = length r"
  by (auto simp: undiff_step_def np_cumsum_def length_cumsum_from split: if_splits)

lemma length_seasonal_undiff: "seasonal_undiff orig s r = Some r' \<Longrightarrow> length r' = length r"
  by (auto simp: seasonal_undiff_def split: if_splits)

lemma option_times_length:
  assumes "\<And>x y. f x = Some y \<Longrightarrow> length y = length x"
  shows "option_times n f x = Some y \<Longrightarrow> length y = length x"
proof (induction n arbitrary: x)
  case 0
  then show ?case by simp
next
  case (Suc n)
  then show ?case using assms by (fastforce split: option.splits)
qed

lemma length_invertDifferencing:
  assumes "invertDifferencing fc orig d s D = Some r"
  shows "length r = length fc"
proof -
  from assms obtain r1 where
    a: "option_times d (undiff_step orig) fc = Some r1" and
    b: "option_times D (seasonal_undiff orig s) r1 = Some r"
    by (auto simp: invertDifferencing_def split: option.splits)
  have "length r1 = length fc"
    using a by (rule option_times_length [rotated]) (rule length_undiff_step)
  moreover have "length r = length r1"
    using b by (rule option_times_length [rotated]) (rule length_seasonal_undiff)
  ultimately show ?thesis by simp
qed

lemma length_ar_forecast_loop:
  "ar_forecast_loop n p ar ds buffer fc = Some r \<Longrightarrow> length r = length fc + n"
  by (induction n arbitrary: buffer fc) (auto split: option.splits if_splits)

lemma length_simpleSarimaForecast_try:
  "simpleSarimaForecast_try e cfg series steps = Some r \<Longrightarrow> length r = steps"
  unfolding simpleSarimaForecast_try_def
  by (auto simp: np_full_def Let_def split: option.splits if_splits
      dest!: length_invertDifferencing length_ar_forecast_loop)

lemma length_simpleSarimaForecast:
  "length (simpleSarimaForecast e cfg series steps) = steps"
  by (auto simp: simpleSarimaForecast_def np_full_def split: option.splits
      dest: length_simpleSarimaForecast_try)

subsection \<open>When \<open>forecast\<close> returns, and what it writes\<close>

lemma forecast_result_iff:
  "fst (forecast e svc h steps) \<noteq> None \<longleftrightarrow>
     running svc \<and> 10 \<le> length h \<and>
     (\<exists>ts. parse_timestamps e h = Some ts \<and> sortable e ts
         \<and> future_timestamps e ts steps \<noteq> None)"
  by (auto simp: forecast_def Let_def split: option.splits prod.splits)

lemma forecast_confidence_result:
  "fst (forecast e svc h steps) = Some r \<Longrightarrow>
     fr_confidence r = forecast_confidence (map pt_value h)"
  by (auto simp: forecast_def Let_def split: option.splits prod.splits if_splits)

lemma select_season_frame:
  "select_season e svc v =
     svc\<lparr>config := (config svc)\<lparr>cfg_s := cfg_s (config (select_season e svc v))\<rparr>\<rparr>"
  by (simp add: select_season_def Let_def)

lemma statsmodels_frame:
  "snd (statsmodelsSarimaForecast e svc series steps) =
     svc\<lparr>modelFitted := modelFitted (snd (statsmodelsSarimaForecast e svc series steps))\<rparr>"
  by (auto simp: statsmodelsSarimaForecast_def split: sarimax_outcome.splits)

lemma run_sarima_frame:
  "snd (run_sarima e svc ts v steps) =
     svc\<lparr>modelFitted := modelFitted (snd (run_sarima e svc ts v steps))\<rparr>"
  using statsmodels_frame [of e svc] by (simp add: run_sarima_def)

lemma forecast_state:
  "snd (forecast e svc h steps) = svc \<or>
   snd (forecast e svc h steps) = select_season e svc (map pt_value h) \<or>
   (\<exists>ts. parse_timestamps e h = Some ts \<and> sortable e ts \<and>
      snd (forecast e svc h steps) =
        snd (run_sarima e (select_season e svc (map pt_value h)) ts (map pt_value h) steps))"
  by (auto simp: forecast_def Let_def split: option.splits prod.splits)

lemma forecast_frame:
  "snd (forecast e svc h steps) =
     svc\<lparr>config := (config svc)\<lparr>cfg_s := cfg_s (config (snd (forecast e svc h steps)))\<rparr>,
         modelFitted := modelFitted (snd (forecast e svc h steps))\<rparr>"
proof -
  consider "snd (forecast e svc h steps) = svc"
    | "snd (forecast e svc h steps) = select_season e svc (map pt_value h)"
    | ts where "snd (forecast e svc h steps) =
        snd (run_sarima e (select_season e svc (map pt_value h)) ts (map pt_value h) steps)"
    using forecast_state [of e svc h steps] by blast
  then show ?thesis
  proof cases
    case 1
    then show ?thesis by simp
  next
    case 2
    have "select_season e svc (map pt_value h) =
        svc\<lparr>config := (config svc)\<lparr>cfg_s := cfg_s (config (select_season e svc (map pt_value h)))\<rparr>\<rparr>"
      by (rule select_season_frame)
    then show ?thesis
      unfolding 2 by (simp add: select_season_def Let_def)
  next
    case 3
    let ?s1 = "select_season e svc (map pt_value h)"
    let ?s2 = "snd (run_sarima e ?s1 ts (map pt_value h) steps)"
    have a: "?s2 = ?s1\<lparr>modelFitted := modelFitted ?s2\<rparr>"
      by (rule run_sarima_frame)
    have b: "?s1 = svc\<lparr>config := (config svc)\<lparr>cfg_s := cfg_s (config ?s1)\<rparr>\<rparr>"
      by (rule select_season_frame)
    have c: "config ?s2 = config ?s1"
      by (subst a) simp
    have "?s2 = svc\<lparr>config := (config svc)\<lparr>cfg_s := cfg_s (config ?s2)\<rparr>,
                    modelFitted := modelFitted ?s2\<rparr>"
      by (subst a, subst b) (simp add: c)
    then show ?thesis unfolding 3 .
  qed
qed

subsection \<open>The example clock and histories\<close>

lemma digit_of_digit_char: "d < 10 \<Longrightarrow> digit_of (digit_char d) = Some d"
proof -
  assume "d < 10"
  then have "d = 0 \<or> d = 1 \<or> d = 2 \<or> d = 3 \<or> d = 4 \<or> d = 5 \<or> d = 6 \<or> d = 7 \<or> d = 8 \<or> d = 9"
    by arith
  then show ?thesis
    by (elim disjE) (simp_all add: digit_of_def digit_char_def)
qed

lemma parse_iso_hour_iso_hour:
  assumes "h < 744"
  shows "parse_iso_hour (iso_hour h) = Some (3600 * int h)"
proof -
  let ?d = "Suc (h div 24)" and ?m = "h mod 24"
  have d: "?d div 10 < 10" "?d mod 10 < 10" and m: "?m div 10 < 10" "?m mod 10 < 10"
    using assms by simp_all
  have s: "iso_hour h =
    [CHR ''2'', CHR ''0'', CHR ''2'', CHR ''4'', CHR ''-'', CHR ''0'', CHR ''1'', CHR ''-'',
     digit_char (?d div 10), digit_char (?d mod 10), CHR ''T'',
     digit_char (?m div 10), digit_char (?m mod 10),
     CHR '':'', CHR ''0'', CHR ''0'', CHR '':'', CHR ''0'', CHR ''0'']"
    by (simp add: iso_hour_def pad2_def)
  have n: "24 * (10 * (?d div 10) + ?d mod 10 - 1) + (10 * (?m div 10) + ?m mod 10) = h"
    by simp
  show ?thesis
    unfolding s parse_iso_hour_def
    using n by (simp add: digit_of_digit_char d m del: mult_Suc_right)
qed

lemma those_map_eq:
  "(\<And>x. x \<in> set xs \<Longrightarrow> f x = Some (g x)) \<Longrightarrow> those (map f xs) = Some (map g xs)"
  by (induction xs) auto

lemma pt_value_hourly_points: "map pt_value (hourly_points vs) = vs"
proof -
  have "map pt_value (hourly_points vs) = map snd (enumerate 0 vs)"
    unfolding hourly_points_def by (simp add: case_prod_unfold comp_def)
  then show ?thesis by simp
qed

lemma pt_timestamp_hourly_points:
  "map pt_timestamp (hourly_points vs) = map iso_hour [0..<length vs]"
proof -
  have "map pt_timestamp (hourly_points vs) = map (iso_hour \<circ> fst) (enumerate 0 vs)"
    unfolding hourly_points_def by (simp add: case_prod_unfold comp_def)
  also have "\<dots> = map iso_hour (map fst (enumerate 0 vs))"
    by (simp only: map_map)
  finally show ?thesis by simp
qed

lemma length_hourly_points: "length (hourly_points vs) = length vs"
  by (simp add: hourly_points_def)

lemma parse_hourly_points:
  assumes "length vs \<le> 744"
  shows "parse_timestamps env_plain (hourly_points vs) = Some (map (\<lambda>h. 3600 * int h) [0..<length vs])"
proof -
  have "map (\<lambda>pt. parse_iso_hour (pt_timestamp pt)) (hourly_points vs)
        = map parse_iso_hour (map pt_timestamp (hourly_points vs))"
    by simp
  also have "\<dots> = map (\<lambda>h. parse_iso_hour (iso_hour h)) [0..<length vs]"
    unfolding pt_timestamp_hourly_points by simp
  finally have "parse_timestamps env_plain (hourly_points vs)
      = those (map (\<lambda>h. parse_iso_hour (iso_hour h)) [0..<length vs])"
    by (simp add: parse_timestamps_def env_plain_def)
  also have "\<dots> = Some (map (\<lambda>h. 3600 * int h) [0..<length vs])"
    using assms by (intro those_map_eq parse_iso_hour_iso_hour) simp
  finally show ?thesis .
qed

subsection \<open>Forecasts on the example clock\<close>

lemma future_timestamps_total:
  assumes "\<And>t x. ts_add e t x \<noteq> None" "\<And>a b. total_seconds e a b \<noteq> None"
  shows "future_timestamps e ts steps \<noteq> None"
proof (cases "2 \<le> length ts")
  case True
  obtain x where "total_seconds e (last ts) (ts ! (length ts - 2)) = Some x"
    using assms(2) by blast
  then show ?thesis
    using True assms(1)
    by (simp add: future_timestamps_def Let_def those_map_Some_iff del: not_None_eq)
next
  case False
  then show ?thesis
    using assms(1)
    by (simp add: future_timestamps_def Let_def those_map_Some_iff del: not_None_eq)
qed

lemma future_timestamps_env_plain: "future_timestamps env_plain ts steps \<noteq> None"
  by (rule future_timestamps_total) (simp_all add: env_plain_def)

lemma forecast_plain_returns:
  assumes "running svc" "10 \<le> length vs" "length vs \<le> 744"
  shows "\<exists>r. fst (forecast env_plain svc (hourly_points vs) steps) = Some r"
proof -
  have "fst (forecast env_plain svc (hourly_points vs) steps) \<noteq> None"
    unfolding forecast_result_iff
    using assms
    by (simp add: length_hourly_points parse_hourly_points future_timestamps_env_plain)
      (simp add: env_plain_def)
  then show ?thesis by blast
qed

lemma forecast_predictions:
  assumes "fst (forecast e svc h steps) = Some r"
    and "parse_timestamps e h = Some ts"
  shows "fr_predictions r =
     fst (run_sarima e (select_season e svc (map pt_value h)) ts (map pt_value h) steps)"
  using assms
  by (auto simp: forecast_def Let_def split: option.splits prod.splits if_splits)

lemma simpleSarimaForecast_absorbs:
  "simpleSarimaForecast_try e cfg series steps = None \<Longrightarrow>
     simpleSarimaForecast e cfg series steps = np_full steps (Fin (np_mean (py_last 10 series)))"
  by (simp add: simpleSarimaForecast_def)

lemma select_season_short:
  "length vs < 50 \<Longrightarrow> select_season e svc vs = svc"
  by (simp add: select_season_def detectSeasonality_def Let_def)

subsection \<open>The confidence\<close>

lemma np_mean_replicate: "0 < n \<Longrightarrow> np_mean (replicate n c) = c"
  by (simp add: np_mean_def sum_list_replicate)

lemma np_var_replicate: "np_var (replicate n c) = 0"
  by (cases "n = 0") (simp_all add: np_var_def np_mean_replicate, simp add: np_mean_def)

lemma constant_list: "(\<forall>x\<in>set xs. x = c) \<Longrightarrow> xs = replicate (length xs) c"
  by (induction xs) auto

lemma py_last_replicate: "py_last k (replicate n c) = replicate (if k = 0 then n else min k n) c"
  by (auto simp: py_last_def min_def)

lemma py_last_short: "length xs \<le> k \<Longrightarrow> py_last k xs = xs"
  by (simp add: py_last_def)

lemma forecast_confidence_unfold:
  "forecast_confidence vs =
     max 0.5 (min 0.95 (1 - np_var (py_last 50 vs) / ((np_mean vs)\<^sup>2 + 1 / 1000000)))"
  by (simp add: forecast_confidence_def Let_def py_last_short)

lemma forecast_confidence_constant:
  assumes "vs \<noteq> []" "\<forall>x\<in>set vs. x = c"
  shows "forecast_confidence vs = 19 / 20"
proof -
  from assms(2) have vs: "vs = replicate (length vs) c"
    by (rule constant_list)
  have "np_var (py_last 50 vs) = 0"
    by (subst vs) (simp only: py_last_replicate np_var_replicate)
  then show ?thesis
    unfolding forecast_confidence_unfold by simp
qed

lemma length_concat_replicate: "length (concat (replicate n xs)) = n * length xs"
  by (induction n) simp_all

lemma sum_list_concat_replicate:
  "sum_list (concat (replicate n xs)) = real n * sum_list xs"
  by (induction n) (simp_all add: algebra_simps)

lemma map_concat_replicate: "map f (concat (replicate n xs)) = concat (replicate n (map f xs))"
  by (induction n) simp_all

lemma values_51:
  "np_mean (53 # concat (replicate 25 [1, 3 :: real])) = 3"
  "py_last 50 (53 # concat (replicate 25 [1, 3 :: real])) = concat (replicate 25 [1, 3])"
  "np_mean (concat (replicate 25 [1, 3 :: real])) = 2"
  "np_var (concat (replicate 25 [1, 3 :: real])) = 1"
proof -
  note s = sum_list_concat_replicate and l = length_concat_replicate
  show "np_mean (53 # concat (replicate 25 [1, 3 :: real])) = 3"
    by (simp add: np_mean_def s l)
  show "py_last 50 (53 # concat (replicate 25 [1, 3 :: real])) = concat (replicate 25 [1, 3])"
    by (simp add: py_last_def l)
  show e: "np_mean (concat (replicate 25 [1, 3 :: real])) = 2"
    by (simp add: np_mean_def s l)
  show "np_var (concat (replicate 25 [1, 3 :: real])) = 1"
    unfolding np_var_def e by (simp add: map_concat_replicate) (simp add: np_mean_def s l)
qed

subsection \<open>Differencing and its inversion\<close>

lemma cumsum_from_zeros:
  fixes acc :: "'a::monoid_add"
  shows "cumsum_from acc (replicate k 0) = replicate k acc"
  by (induction k) simp_all

lemma np_diff_Cons2: "np_diff (x # y # ys) = (y - x) # np_diff (y # ys)"
  by (simp add: np_diff_def)

lemma np_diff_constant_tail:
  "xs \<noteq> [] \<Longrightarrow> np_diff (xs @ replicate k (last xs)) = np_diff xs @ replicate k 0"
proof (induction xs rule: induct_list012)
  case 1
  then show ?case by simp
next
  case (2 x)
  show ?case
    by (induction k) (simp_all add: np_diff_def)
next
  case (3 x y zs)
  then show ?case by (simp add: np_diff_Cons2)
qed

text \<open>
  With non-seasonal differencing alone (\<open>d = 1\<close>, \<open>D = 0\<close>) the inversion of zero deltas
  continues the series: the values it returns, appended to the series, difference to
  the differenced series followed by zeros.
\<close>

lemma undifferencing_first_order:
  assumes "2 \<le> length series"
  shows "invertDifferencing (replicate k 0) series 1 s 0 = Some (replicate k (last series))
       \<and> applyDifferencing series 1 s 0 = Some (np_diff series)
       \<and> applyDifferencing (series @ replicate k (last series)) 1 s 0
           = Some (np_diff series @ replicate k 0)"
proof -
  from assms have ne: "series \<noteq> []" by auto
  have "invertDifferencing (replicate k 0) series 1 s 0 = Some (replicate k (last series))"
    using ne
    by (simp add: invertDifferencing_def undiff_step_def np_cumsum_def cumsum_from_zeros)
  moreover have "applyDifferencing series 1 s 0 = Some (np_diff series)"
    using assms by (simp add: applyDifferencing_def diff_step_def)
  moreover have "applyDifferencing (series @ replicate k (last series)) 1 s 0
           = Some (np_diff series @ replicate k 0)"
    using assms ne by (simp add: applyDifferencing_def diff_step_def np_diff_constant_tail)
  ultimately show ?thesis by simp
qed

lemma seasonal_diff_constant:
  "0 < s \<Longrightarrow> s < n \<Longrightarrow> seasonal_diff s (replicate n c) = Some (replicate (n - s) 0)"
  by (simp add: seasonal_diff_def map_replicate_const)

lemma diff_step_constant:
  "1 < n \<Longrightarrow> diff_step (replicate n c) = replicate (n - 1) 0"
  by (simp add: diff_step_def np_diff_def tl_replicate)

text \<open>
  With both differencings (\<open>d = 1\<close>, \<open>D = 1\<close>) a constant series differences to zeros,
  and the inversion of zero deltas returns twice the constant: the cumulative sum is
  anchored at the last value of the original series, and the seasonal base is added on
  top of it.
\<close>

lemma applyDifferencing_constant:
  assumes "0 < s" "s + 1 < n"
  shows "applyDifferencing (replicate n c) 1 s 1 = Some (replicate (n - s - 1) 0)"
  using assms
  by (simp add: applyDifferencing_def seasonal_diff_constant diff_step_constant)

lemma seasonal_undiff_constant:
  assumes "0 < s" "s \<le> n"
  shows "seasonal_undiff (replicate n c) s r = Some (map (\<lambda>v. v + c) r)"
proof -
  have b: "py_last s (replicate n c) = replicate s c"
    using assms by (simp add: py_last_def)
  have "map (\<lambda>(i, v). v + replicate s c ! (i mod s)) (enumerate 0 r)
      = map ((\<lambda>v. v + c) \<circ> snd) (enumerate 0 r)"
    using assms by (intro map_cong) auto
  also have "\<dots> = map (\<lambda>v. v + c) (map snd (enumerate 0 r))"
    by (simp only: map_map)
  finally show ?thesis
    using assms by (simp add: seasonal_undiff_def b)
qed

lemma invertDifferencing_constant:
  fixes c :: "'a::monoid_add"
  assumes "0 < s" "s \<le> n"
  shows "invertDifferencing (replicate k 0) (replicate n c) 1 s 1 = Some (replicate k (c + c))"
proof -
  from assms have n: "0 < n" by simp
  then have u: "undiff_step (replicate n c) (replicate k 0) = Some (replicate k c)"
    by (simp add: undiff_step_def np_cumsum_def cumsum_from_zeros)
  show ?thesis
    by (simp add: invertDifferencing_def u seasonal_undiff_constant [OF assms])
qed

subsection \<open>Lengths in the orchestrator\<close>

lemma length_addAnnualSeasonalComponent:
  "length (addAnnualSeasonalComponent e st ps t) = length ps"
  by (auto simp: addAnnualSeasonalComponent_def split: option.splits dest: those_length)

lemma length_applyHumidityCorrection:
  "length (applyHumidityCorrection e ps hum t) = length ps"
  by (simp add: applyHumidityCorrection_def Let_def)

lemma applyHumidityCorrection_short:
  "length hum < 10 \<Longrightarrow> applyHumidityCorrection e ps hum t = ps"
  by (simp add: applyHumidityCorrection_def)

lemma apply_corrections_result:
  "length (fst (apply_corrections e st fv t exo)) = length fv"
  "snd (apply_corrections e st fv t exo) = (exo \<noteq> None)"
  by (simp_all add: apply_corrections_def Let_def length_addAnnualSeasonalComponent
      length_applyHumidityCorrection split: option.splits)

lemma predict_finish_result:
  assumes "predict_finish e st h wd agg steps fv m exo = Some r"
  shows "length (predictions r) = length fv
       \<and> humidity_correction_applied r = (exo \<noteq> None)
       \<and> model r = m
       \<and> forecast_horizon_hours r = steps"
proof -
  obtain fv2 hum t where c: "apply_corrections e st fv t exo = (fv2, hum)"
    and r: "length (predictions r) = length fv2 \<and> humidity_correction_applied r = hum
       \<and> model r = m \<and> forecast_horizon_hours r = steps"
    using assms
    by (auto simp: predict_finish_def split: if_splits option.splits prod.splits)
  show ?thesis
    using r apply_corrections_result [of e st fv t exo] unfolding c by simp
qed

lemma sanitize_loop_bound:
  "length acc \<le> l \<Longrightarrow> length (sanitize_loop (Some l) acc stack) \<le> l"
  by (induction "Some l" acc stack rule: sanitize_loop.induct)
    (auto split: pyval.splits)

lemma length_sanitize_predictions:
  "length (sanitize_predictions raw (Some l)) \<le> l"
  by (simp add: sanitize_predictions_def Let_def)

lemma granite_forecast_length:
  assumes "fst (granite_forecast e st h steps) = Some ps"
  shows "1 \<le> length ps \<and> length ps \<le> steps"
proof -
  from assms obtain column where
    "ps = map Fin (sanitize_predictions (PySeq (take steps column)) (Some steps))" "ps \<noteq> []"
    by (auto simp: granite_forecast_def Let_def split: if_splits option.splits)
  moreover from \<open>ps \<noteq> []\<close> have "1 \<le> length ps"
    by (cases ps) simp_all
  ultimately show ?thesis
    using length_sanitize_predictions [of "PySeq (take steps column)" steps]
    by simp
qed

lemma length_simple_forecast:
  "simple_forecast e vs steps = Some ps \<Longrightarrow> length ps = steps"
  by (auto simp: simple_forecast_def Let_def split: option.splits if_splits)

lemma length_exponential_smoothing:
  assumes "exponential_smoothing_forecast e series steps = Some ps"
    and "\<And>vs n v. ExponentialSmoothing e vs n = Some v \<Longrightarrow> length v = n"
  shows "length ps = steps"
  using assms
  by (auto simp: exponential_smoothing_forecast_def split: option.splits
      dest: length_simple_forecast)

lemma length_run_sarima:
  assumes "\<And>cfg series n v. SARIMAX e cfg series n = Forecast v \<Longrightarrow> length v = n"
  shows "length (fst (run_sarima e svc ts vs steps)) = steps"
  using assms
  by (auto simp: run_sarima_def statsmodelsSarimaForecast_def length_simpleSarimaForecast
      split: sarimax_outcome.splits)

lemma forecast_predictions_run:
  assumes "fst (forecast e svc h steps) = Some r"
  shows "\<exists>ts. fr_predictions r =
     fst (run_sarima e (select_season e svc (map pt_value h)) ts (map pt_value h) steps)"
proof -
  from assms have "fst (forecast e svc h steps) \<noteq> None"
    by simp
  then obtain ts where "parse_timestamps e h = Some ts"
    unfolding forecast_result_iff by blast
  then show ?thesis
    using forecast_predictions [OF assms] by blast
qed

lemma length_forecast_predictions:
  assumes "fst (forecast e svc h steps) = Some r"
    and "\<And>cfg series n v. SARIMAX e cfg series n = Forecast v \<Longrightarrow> length v = n"
  shows "length (fr_predictions r) = steps"
  using forecast_predictions_run [OF assms(1)] length_run_sarima [of e, OF assms(2)]
  by auto

subsection \<open>What \<open>predict\<close> writes\<close>

lemma forecast_writes_forecast: "forecast_writes svc (snd (forecast e svc h steps))"
  unfolding forecast_writes_def by (rule forecast_frame)

lemma predict_writes_refl: "predict_writes st st"
  by (simp add: predict_writes_def)

lemma predict_writes_trans:
  "predict_writes a b \<Longrightarrow> predict_writes b c \<Longrightarrow> predict_writes a c"
  unfolding predict_writes_def
  by (cases a, cases b, cases c) (auto simp: SarimaFallbackService.splits SarimaConfig.splits)

lemma predict_writes_load: "predict_writes st (load_granite_model e st)"
  by (simp add: predict_writes_def load_granite_model_def)

lemma predict_writes_granite:
  "predict_writes st (snd (granite_forecast e st h steps))"
proof -
  have "snd (granite_forecast e st h steps) = load_granite_model e st"
    by (simp add: granite_forecast_def Let_def split: option.splits)
  then show ?thesis by (simp add: predict_writes_load)
qed

lemma predict_writes_sarimaFallback:
  "forecast_writes (sarimaFallback st) svc \<Longrightarrow> predict_writes st (st\<lparr>sarimaFallback := svc\<rparr>)"
  "forecast_writes (sarimaFallback st) svc \<Longrightarrow>
     predict_writes st (st\<lparr>sarimaFallback := svc, useFallback := b\<rparr>)"
  unfolding predict_writes_def forecast_writes_def by simp_all

lemma predict_writes_try_granite:
  "predict_writes st (snd (snd (try_granite e st wd steps)))"
  using predict_writes_granite [of st e wd steps]
  by (cases "granite_forecast e st wd steps") (simp add: try_granite_def predict_writes_refl)

lemma predict_writes_try_sarima:
  "predict_writes (snd (snd sel)) (snd (snd (try_sarima e sel wd steps)))"
proof -
  obtain fv m st where sel: "sel = (fv, m, st)"
    by (cases sel) auto
  have w: "forecast_writes (sarimaFallback st) (snd (forecast e (sarimaFallback st) wd steps))"
    by (rule forecast_writes_forecast)
  show ?thesis
    unfolding sel try_sarima_def sarima_fallback_forecast_def
    using w
    by (auto simp: predict_writes_refl predict_writes_sarimaFallback Let_def
        split: prod.splits)
qed

lemma try_exponential_smoothing_state:
  "snd (snd (try_exponential_smoothing e sel wd steps)) = snd (snd sel)"
  by (auto simp: try_exponential_smoothing_def split: prod.splits option.splits)

lemma predict_writes_select:
  "predict_writes st (snd (snd (select_forecast e st wd steps)))"
  unfolding select_forecast_def try_exponential_smoothing_state
  using predict_writes_try_granite [of st e wd steps]
    predict_writes_try_sarima [of "try_granite e st wd steps" e wd steps]
  by (rule predict_writes_trans)

lemma predict_unfold:
  assumes "10 \<le> length h"
  shows "predict e st h agg exo =
     (let wd = working_data e st h agg;
          steps = min (forecast_horizon st) 24;
          sel = select_forecast e st wd steps
      in (case fst sel of
            None \<Rightarrow> None
          | Some fv \<Rightarrow>
              predict_finish e (snd (snd sel)) h wd (aggregates st h agg) steps fv
                (fst (snd sel)) exo,
          snd (snd sel)))"
  using assms
  by (simp add: predict_def Let_def split: prod.splits option.splits)

lemma predict_writes_predict: "predict_writes st (snd (predict e st h agg exo))"
proof (cases "10 \<le> length h")
  case True
  show ?thesis
    unfolding predict_unfold [OF True] Let_def snd_conv
    by (rule predict_writes_select)
next
  case False
  then show ?thesis
    by (simp add: predict_def predict_writes_refl)
qed

subsection \<open>Which model gives the forecast\<close>

lemma try_granite_outcome:
  assumes "try_granite e st wd steps = (Some fv, m, st')"
  shows "m = ''IBM Granite TTM-R2'' \<and> fst (granite_forecast e st wd steps) = Some fv"
  using assms
  by (cases "granite_forecast e st wd steps") (auto simp: try_granite_def split: if_splits)

lemma try_granite_None:
  assumes "try_granite e st wd steps = (None, m, st')"
  shows "m = ''unknown''"
  using assms
  by (cases "granite_forecast e st wd steps") (auto simp: try_granite_def split: if_splits)

lemma try_sarima_outcome:
  assumes "try_sarima e (None, m0, st0) wd steps = (Some fv, m, st')"
  shows "m = ''SARIMA'' \<and> useFallback st' \<and>
     (\<exists>r. fst (forecast e (sarimaFallback st0) wd steps) = Some r \<and> fv = fr_predictions r)"
  using assms
  by (cases "forecast e (sarimaFallback st0) wd steps")
    (auto simp: try_sarima_def sarima_fallback_forecast_def split: if_splits)

lemma try_sarima_keeps:
  "try_sarima e (Some fv, m, st) wd steps = (Some fv, m, st)"
  by (simp add: try_sarima_def)

lemma try_sarima_None:
  assumes "try_sarima e (fv0, m0, st0) wd steps = (None, m, st')"
  shows "m = m0"
  using assms
  by (cases "forecast e (sarimaFallback st0) wd steps")
    (auto simp: try_sarima_def sarima_fallback_forecast_def split: if_splits)

lemma try_exponential_smoothing_keeps:
  "try_exponential_smoothing e (Some fv, m, st) wd steps = (Some fv, m, st)"
  by (simp add: try_exponential_smoothing_def)

lemma try_exponential_smoothing_outcome:
  assumes "try_exponential_smoothing e (None, m0, st0) wd steps = (Some fv, m, st')"
  shows "m = ''Exponential Smoothing (Holt-Winters)'' \<and>
     (\<exists>series. exponential_smoothing_forecast e series steps = Some fv)"
  using assms
  by (auto simp: try_exponential_smoothing_def split: option.splits)

lemma select_forecast_outcome:
  assumes "select_forecast e st wd steps = (Some fv, m, st')"
  shows "(m = ''IBM Granite TTM-R2'' \<and> fst (granite_forecast e st wd steps) = Some fv)
       \<or> (m = ''SARIMA'' \<and> useFallback st' \<and>
            (\<exists>svc r. fst (forecast e svc wd steps) = Some r \<and> fv = fr_predictions r))
       \<or> (m = ''Exponential Smoothing (Holt-Winters)'' \<and>
            (\<exists>series. exponential_smoothing_forecast e series steps = Some fv))"
proof -
  obtain fv1 m1 st1 where g: "try_granite e st wd steps = (fv1, m1, st1)"
    by (cases "try_granite e st wd steps") auto
  obtain fv2 m2 st2 where s: "try_sarima e (fv1, m1, st1) wd steps = (fv2, m2, st2)"
    by (cases "try_sarima e (fv1, m1, st1) wd steps") auto
  have x: "try_exponential_smoothing e (fv2, m2, st2) wd steps = (Some fv, m, st')"
    using assms by (simp add: select_forecast_def g s)
  show ?thesis
  proof (cases fv1)
    case (Some a)
    have g': "m1 = ''IBM Granite TTM-R2'' \<and> fst (granite_forecast e st wd steps) = Some a"
      using g Some by (intro try_granite_outcome) simp
    have "(fv2, m2, st2) = (Some a, m1, st1)"
      using s unfolding Some try_sarima_keeps by simp
    then have "(Some fv, m, st') = (Some a, m1, st1)"
      using x by (simp add: try_exponential_smoothing_keeps)
    then show ?thesis
      using g' by simp
  next
    case None
    note n1 = this
    show ?thesis
    proof (cases fv2)
      case (Some b)
      then have "fv = b" "m = m2" "st' = st2"
        using x by (simp_all add: try_exponential_smoothing_keeps)
      moreover have "m2 = ''SARIMA'' \<and> useFallback st2 \<and>
         (\<exists>r. fst (forecast e (sarimaFallback st1) wd steps) = Some r \<and> b = fr_predictions r)"
        using s n1 Some try_sarima_outcome [of e m1 st1 wd steps b m2 st2] by simp
      ultimately show ?thesis by blast
    next
      case None
      then show ?thesis
        using x try_exponential_smoothing_outcome [of e m2 st2 wd steps fv m st'] by simp
    qed
  qed
qed

lemma select_forecast_length:
  assumes "select_forecast e st wd steps = (Some fv, m, st')"
    and "\<And>cfg series n v. SARIMAX e cfg series n = Forecast v \<Longrightarrow> length v = n"
    and "\<And>vs n v. ExponentialSmoothing e vs n = Some v \<Longrightarrow> length v = n"
  shows "length fv \<le> steps
       \<and> (m \<noteq> ''IBM Granite TTM-R2'' \<longrightarrow> length fv = steps)
       \<and> (m = ''IBM Granite TTM-R2'' \<longrightarrow> 1 \<le> length fv)"
  using select_forecast_outcome [OF assms(1)]
proof (elim disjE conjE exE)
  assume "m = ''IBM Granite TTM-R2''" "fst (granite_forecast e st wd steps) = Some fv"
  then show ?thesis
    using granite_forecast_length [of e st wd steps fv] by simp
next
  fix svc r
  assume "m = ''SARIMA''" "fst (forecast e svc wd steps) = Some r" "fv = fr_predictions r"
  then show ?thesis
    using length_forecast_predictions [of e svc wd steps r] assms(2) by simp
next
  fix series
  assume "m = ''Exponential Smoothing (Holt-Winters)''"
    "exponential_smoothing_forecast e series steps = Some fv"
  then show ?thesis
    using length_exponential_smoothing [of e series steps fv] assms(3) by simp
qed

lemma predict_result:
  assumes "fst (predict e st h agg exo) = Some r"
  shows "\<exists>fv m st'.
      select_forecast e st (working_data e st h agg) (min (forecast_horizon st) 24)
        = (Some fv, m, st')
    \<and> predict_finish e st' h (working_data e st h agg) (aggregates st h agg)
         (min (forecast_horizon st) 24) fv m exo = Some r
    \<and> snd (predict e st h agg exo) = st'"
proof -
  have len: "10 \<le> length h"
    using assms by (cases "10 \<le> length h") (simp_all add: predict_def)
  obtain x m st' where
    sel: "select_forecast e st (working_data e st h agg) (min (forecast_horizon st) 24)
            = (x, m, st')"
    by (metis prod_cases3)
  show ?thesis
    using assms unfolding predict_unfold [OF len] Let_def sel
    by (cases x) simp_all
qed

subsection \<open>Runs of \<open>predict\<close> on the example clock\<close>

lemma hourly_points_parse:
  assumes "pt \<in> set (hourly_points vs)" "length vs \<le> 744"
  shows "\<exists>t. parse_iso_hour (pt_timestamp pt) = Some t"
proof -
  from assms(1) have "pt_timestamp pt \<in> set (map pt_timestamp (hourly_points vs))"
    by simp
  then obtain h where "h < length vs" "pt_timestamp pt = iso_hour h"
    unfolding pt_timestamp_hourly_points by auto
  then show ?thesis
    using assms(2) parse_iso_hour_iso_hour [of h] by simp
qed

lemma interval_hours_returns:
  assumes "\<And>pt. pt \<in> set wd \<Longrightarrow> \<exists>t. to_datetime e (pt_timestamp pt) = Some t"
    and "\<And>a b. total_seconds e a b \<noteq> None"
  shows "\<exists>ih. interval_hours e agg wd = Some ih"
proof (cases "\<not> agg \<and> 2 \<le> length wd")
  case True
  then have "last wd \<in> set wd" "wd ! (length wd - 2) \<in> set wd"
    by (auto intro: last_in_set nth_mem)
  then obtain t1 t2 where "to_datetime e (pt_timestamp (last wd)) = Some t1"
    "to_datetime e (pt_timestamp (wd ! (length wd - 2))) = Some t2"
    using assms(1) by blast
  moreover obtain x where "total_seconds e t1 t2 = Some x"
    using assms(2) by blast
  ultimately have "interval_hours e agg wd = Some (x / 3600)"
    using True by (simp add: interval_hours_def)
  then show ?thesis ..
next
  case False
  then have "interval_hours e agg wd = Some 1"
    by (auto simp: interval_hours_def)
  then show ?thesis ..
qed

lemma predict_finish_returns:
  assumes "wd \<noteq> []"
    and "\<And>pt. pt \<in> set wd \<Longrightarrow> \<exists>t. to_datetime e (pt_timestamp pt) = Some t"
    and "\<And>t x. ts_add e t x \<noteq> None"
    and "\<And>a b. total_seconds e a b \<noteq> None"
  shows "\<exists>r. predict_finish e st h wd agg steps fv m exo = Some r"
proof -
  from assms(1) have "last wd \<in> set wd"
    by simp
  then obtain t where t: "to_datetime e (pt_timestamp (last wd)) = Some t"
    using assms(2) by blast
  obtain ih where ih: "interval_hours e agg wd = Some ih"
    using interval_hours_returns [of wd e agg] assms(2,4) by blast
  obtain fv2 hum where c: "apply_corrections e st fv t exo = (fv2, hum)"
    by (metis surj_pair)
  have "predict_timestamps e t ih (length fv2) \<noteq> None"
    unfolding predict_timestamps_def those_map_Some_iff using assms(3) by simp
  then obtain future where f: "predict_timestamps e t ih (length fv2) = Some future"
    by blast
  show ?thesis
    unfolding predict_finish_def using assms(1) by (simp add: t ih c f)
qed

lemma forecast_clock_returns:
  assumes "to_datetime e = parse_iso_hour" "\<And>t x. ts_add e t x \<noteq> None"
    and "running svc" "10 \<le> length vs" "length vs \<le> 744"
    and "\<And>a b. total_seconds e a b \<noteq> None" "\<And>ts. sortable e ts"
  shows "\<exists>r. fst (forecast e svc (hourly_points vs) steps) = Some r"
proof -
  have "parse_timestamps e (hourly_points vs) = parse_timestamps env_plain (hourly_points vs)"
    by (simp add: parse_timestamps_def assms(1) env_plain_def)
  then have "\<exists>ts. parse_timestamps e (hourly_points vs) = Some ts"
    using parse_hourly_points [OF assms(5)] by simp
  moreover have "future_timestamps e ts steps \<noteq> None" for ts
    using assms(2,6) by (rule future_timestamps_total)
  ultimately have "fst (forecast e svc (hourly_points vs) steps) \<noteq> None"
    unfolding forecast_result_iff using assms(3,4,7) by (auto simp: length_hourly_points)
  then show ?thesis by blast
qed

lemma select_forecast_sarima:
  assumes "\<not> (use_granite st \<and> context_length st \<le> length wd)"
    and "forecast e (sarimaFallback st) wd steps = (Some r, svc)"
  shows "select_forecast e st wd steps =
     (Some (fr_predictions r), ''SARIMA'', st\<lparr>sarimaFallback := svc, useFallback := True\<rparr>)"
proof -
  have "try_granite e st wd steps = (None, ''unknown'', st)"
    using assms(1) by (auto simp: try_granite_def)
  moreover have "try_sarima e (None, ''unknown'', st) wd steps =
      (Some (fr_predictions r), ''SARIMA'', st\<lparr>sarimaFallback := svc, useFallback := True\<rparr>)"
    by (simp add: try_sarima_def sarima_fallback_forecast_def assms(2))
  ultimately show ?thesis
    by (simp add: select_forecast_def try_exponential_smoothing_keeps)
qed

lemma predict_clock_sarima:
  assumes "to_datetime e = parse_iso_hour" "\<And>t x. ts_add e t x \<noteq> None"
    and "running (sarimaFallback st)" "10 \<le> length vs" "length vs \<le> 744"
    and "\<not> (use_granite st \<and> context_length st \<le> length vs)"
    and "\<not> aggregates st (hourly_points vs) agg"
    and "\<And>a b. total_seconds e a b \<noteq> None" "\<And>ts. sortable e ts"
  shows "\<exists>r. fst (predict e st (hourly_points vs) agg exo) = Some r \<and> model r = ''SARIMA''
           \<and> useFallback (snd (predict e st (hourly_points vs) agg exo))"
proof -
  let ?h = "hourly_points vs" and ?steps = "min (forecast_horizon st) 24"
  obtain r0 where "fst (forecast e (sarimaFallback st) ?h ?steps) = Some r0"
    using forecast_clock_returns [OF assms(1,2,3,4,5,8,9)] by blast
  then obtain svc where f: "forecast e (sarimaFallback st) ?h ?steps = (Some r0, svc)"
    by (cases "forecast e (sarimaFallback st) ?h ?steps") simp
  have w: "working_data e st ?h agg = ?h"
    using assms(7) by (simp add: working_data_def)
  have sel: "select_forecast e st ?h ?steps =
     (Some (fr_predictions r0), ''SARIMA'', st\<lparr>sarimaFallback := svc, useFallback := True\<rparr>)"
    using assms(6) f by (intro select_forecast_sarima) (simp_all add: length_hourly_points)
  have ne: "?h \<noteq> []"
  proof
    assume "?h = []"
    then have "length ?h = 0"
      by (simp only: list.size)
    then show False
      using assms(4) unfolding length_hourly_points by simp
  qed
  have pa: "\<exists>t. to_datetime e (pt_timestamp pt) = Some t" if "pt \<in> set ?h" for pt
    using hourly_points_parse [OF that assms(5)] by (simp add: assms(1))
  obtain r where r: "predict_finish e (st\<lparr>sarimaFallback := svc, useFallback := True\<rparr>) ?h ?h
      (aggregates st ?h agg) ?steps (fr_predictions r0) ''SARIMA'' exo = Some r"
    using predict_finish_returns [OF ne pa assms(2,8)] by blast
  have len: "10 \<le> length ?h"
    using assms(4) by (simp add: length_hourly_points)
  have "predict e st ?h agg exo = (Some r, st\<lparr>sarimaFallback := svc, useFallback := True\<rparr>)"
    unfolding predict_unfold [OF len] Let_def w sel using r by simp
  moreover have "model r = ''SARIMA''"
    using predict_finish_result [OF r] by simp
  ultimately show ?thesis by simp
qed

lemma clock_env_plain:
  "to_datetime env_plain = parse_iso_hour" "ts_add env_plain t x \<noteq> None"
  "to_datetime env_granite = parse_iso_hour" "ts_add env_granite t x \<noteq> None"
  "total_seconds env_plain a b \<noteq> None" "sortable env_plain ts"
  "total_seconds env_granite a b \<noteq> None" "sortable env_granite ts"
  by (simp_all add: env_plain_def env_granite_def)

lemma sanitize_example:
  "sanitize_predictions
     (PySeq (take 5 [PyFloat (43 / 2), PyNonFinite, PyFloat 22, PyFloat (45 / 2),
                      PyFloat 23, PyFloat (47 / 2)])) (Some 5)
   = [43 / 2, 22, 45 / 2, 23]"
  by (simp add: sanitize_predictions_def)

subsection \<open>What \<open>predict\<close> leaves alone\<close>

lemma forecast_period_kept:
  assumes "\<not> autoSelectParams (config svc)"
  shows "cfg_s (config (snd (forecast e svc h steps))) = cfg_s (config svc)"
proof -
  have s: "select_season e svc v = svc" for v
    using assms by (simp add: select_season_def)
  have "config (snd (run_sarima e svc ts v steps)) = config svc" for ts v
    by (subst run_sarima_frame) simp
  then show ?thesis
    using forecast_state [of e svc h steps] by (auto simp: s)
qed

lemma try_granite_keeps:
  "useFallback (snd (snd (try_granite e st wd steps))) = useFallback st"
  "sarimaFallback (snd (snd (try_granite e st wd steps))) = sarimaFallback st"
proof -
  have "snd (granite_forecast e st wd steps) = load_granite_model e st"
    by (simp add: granite_forecast_def Let_def split: option.splits)
  then have "snd (snd (try_granite e st wd steps)) = st
      \<or> snd (snd (try_granite e st wd steps)) = load_granite_model e st"
    by (cases "granite_forecast e st wd steps") (simp add: try_granite_def)
  then show "useFallback (snd (snd (try_granite e st wd steps))) = useFallback st"
    "sarimaFallback (snd (snd (try_granite e st wd steps))) = sarimaFallback st"
    by (auto simp: load_granite_model_def split: if_splits)
qed

lemma try_sarima_useFallback:
  "useFallback (snd (snd sel)) \<Longrightarrow> useFallback (snd (snd (try_sarima e sel wd steps)))"
  by (cases sel, cases "forecast e (sarimaFallback (snd (snd sel))) wd steps")
    (auto simp: try_sarima_def sarima_fallback_forecast_def)

lemma try_sarima_period:
  assumes "\<not> autoSelectParams (config (sarimaFallback (snd (snd sel))))"
  shows "cfg_s (config (sarimaFallback (snd (snd (try_sarima e sel wd steps)))))
       = cfg_s (config (sarimaFallback (snd (snd sel))))"
proof -
  obtain fv m st where sel: "sel = (fv, m, st)"
    by (cases sel) auto
  have "sarimaFallback (snd (snd (try_sarima e sel wd steps))) = sarimaFallback st
      \<or> sarimaFallback (snd (snd (try_sarima e sel wd steps)))
          = snd (forecast e (sarimaFallback st) wd steps)"
    unfolding sel
    by (cases "forecast e (sarimaFallback st) wd steps")
      (auto simp: try_sarima_def sarima_fallback_forecast_def)
  then show ?thesis
    using forecast_period_kept [of "sarimaFallback st" e wd steps] assms
    by (auto simp: sel)
qed

lemma select_forecast_monotone:
  "useFallback st \<longrightarrow> useFallback (snd (snd (select_forecast e st wd steps)))"
  "\<not> autoSelectParams (config (sarimaFallback st)) \<longrightarrow>
     cfg_s (config (sarimaFallback (snd (snd (select_forecast e st wd steps)))))
     = cfg_s (config (sarimaFallback st))"
  unfolding select_forecast_def try_exponential_smoothing_state
  using try_sarima_useFallback [of "try_granite e st wd steps" e wd steps]
    try_sarima_period [of "try_granite e st wd steps" e wd steps]
  by (simp_all add: try_granite_keeps)

lemma predict_monotone:
  "useFallback st \<longrightarrow> useFallback (snd (predict e st h agg exo))"
  "\<not> autoSelectParams (config (sarimaFallback st)) \<longrightarrow>
     cfg_s (config (sarimaFallback (snd (predict e st h agg exo))))
     = cfg_s (config (sarimaFallback st))"
proof -
  show "useFallback st \<longrightarrow> useFallback (snd (predict e st h agg exo))"
  proof (cases "10 \<le> length h")
    case True
    show ?thesis
      unfolding predict_unfold [OF True] Let_def snd_conv
      by (rule select_forecast_monotone)
  next
    case False
    then show ?thesis by (simp add: predict_def)
  qed
  show "\<not> autoSelectParams (config (sarimaFallback st)) \<longrightarrow>
     cfg_s (config (sarimaFallback (snd (predict e st h agg exo))))
     = cfg_s (config (sarimaFallback st))"
  proof (cases "10 \<le> length h")
    case True
    show ?thesis
      unfolding predict_unfold [OF True] Let_def snd_conv
      by (rule select_forecast_monotone)
  next
    case False
    then show ?thesis by (simp add: predict_def)
  qed
qed

subsection \<open>The humidity correction\<close>

lemma apply_corrections_short:
  assumes "length ex < 10"
  shows "apply_corrections e st fv t (Some ex) = (fst (apply_corrections e st fv t None), True)"
    and "snd (apply_corrections e st fv t None) = False"
  using assms by (simp_all add: apply_corrections_def Let_def applyHumidityCorrection_short)

lemma predict_finish_short:
  assumes "length ex < 10"
    and "predict_finish e st h wd agg steps fv m (Some ex) = Some r"
  shows "predict_finish e st h wd agg steps fv m None
       = Some (r\<lparr>humidity_correction_applied := False\<rparr>)"
proof -
  obtain t where t: "to_datetime e (pt_timestamp (last wd)) = Some t" and ne: "wd \<noteq> []"
    using assms(2) by (auto simp: predict_finish_def split: if_splits option.splits)
  obtain fv2 where c: "apply_corrections e st fv t None = (fv2, False)"
    using apply_corrections_short(2) [OF assms(1), of e st fv t]
    by (cases "apply_corrections e st fv t None") simp
  have c': "apply_corrections e st fv t (Some ex) = (fv2, True)"
    using apply_corrections_short(1) [OF assms(1), of e st fv t] c by simp
  show ?thesis
    using assms(2) unfolding predict_finish_def
    by (auto simp: ne t c c' split: option.splits)
qed


subsection \<open>Seasonal differencing alone\<close>

text \<open>
  With seasonal differencing alone (\<open>d = 0\<close>, \<open>D = 1\<close>) the inversion of zero deltas
  repeats the last period of the series, and that continuation differences to the
  differenced series followed by zeros.
\<close>

lemma nth_py_last: "0 < s \<Longrightarrow> s \<le> length xs \<Longrightarrow> j < s \<Longrightarrow> py_last s xs ! j = xs ! (length xs - s + j)"
  by (simp add: py_last_def)

lemma seasonal_undiff_zeros:
  fixes series :: "('a::monoid_add) list"
  assumes "0 < s" "s \<le> length series"
  shows "seasonal_undiff series s (replicate k 0)
       = Some (map (\<lambda>i. series ! (length series - s + i mod s)) [0..<k])"
proof -
  have "map (\<lambda>(i, v). v + py_last s series ! (i mod s)) (enumerate 0 (replicate k 0))
      = map (\<lambda>i. series ! (length series - s + i mod s)) [0..<k]"
    using assms by (auto simp: list_eq_iff_nth_eq nth_enumerate_eq nth_py_last)
  then show ?thesis
    using assms by (simp add: seasonal_undiff_def)
qed

lemma seasonal_diff_continued:
  fixes k :: nat
  assumes "0 < s" "s < length series"
  defines "ext \<equiv> map (\<lambda>i. series ! (length series - s + i mod s)) [0..<k]"
  shows "seasonal_diff s (series @ ext)
       = Some (map2 (-) (drop s series) (take (length series - s) series) @ replicate k 0)"
proof -
  let ?n = "length series"
  let ?x = "series @ ext"
  have le: "length ext = k"
    by (simp add: ext_def)
  have "map2 (-) (drop s ?x) (take (length ?x - s) ?x)
      = map2 (-) (drop s series) (take (?n - s) series) @ replicate k 0"
  proof (rule nth_equalityI)
    show "length (map2 (-) (drop s ?x) (take (length ?x - s) ?x))
        = length (map2 (-) (drop s series) (take (?n - s) series) @ replicate k 0)"
      using assms(2) by (simp add: le)
  next
    fix j
    assume "j < length (map2 (-) (drop s ?x) (take (length ?x - s) ?x))"
    then have j: "j < ?n + k - s"
      using assms(2) by (simp add: le)
    have l: "map2 (-) (drop s ?x) (take (length ?x - s) ?x) ! j = ?x ! (s + j) - ?x ! j"
      using j assms(2) by (simp add: le del: drop_append take_append)
    show "map2 (-) (drop s ?x) (take (length ?x - s) ?x) ! j
        = (map2 (-) (drop s series) (take (?n - s) series) @ replicate k 0) ! j"
    proof (cases "j < ?n - s")
      case True
      then have "s + j < ?n" "j < ?n"
        by arith+
      then show ?thesis
        unfolding l using True by (simp add: nth_append)
    next
      case False
      define i where "i = s + j - ?n"
      have i: "i < k" "s + j = ?n + i"
        using False j assms(2) by (simp_all add: i_def)
      have a: "?x ! (s + j) = series ! (?n - s + i mod s)"
        using i by (simp add: nth_append ext_def)
      have b: "?x ! j = series ! (?n - s + i mod s)"
      proof (cases "j < ?n")
        case True
        then have "i < s" "j = ?n - s + i"
          using i assms(2) by simp_all
        then show ?thesis
          using True by (simp add: nth_append)
      next
        case False
        then have "s \<le> i" "j - ?n = i - s" "j - ?n < k"
          using i assms(2) by simp_all
        then show ?thesis
          using False by (simp add: nth_append ext_def le_mod_geq)
      qed
      have "j + s - ?n < k"
        using i by (simp add: i_def add.commute)
      then show ?thesis
        unfolding l a b using False assms(2) by (simp add: nth_append)
    qed
  qed
  then show ?thesis
    using assms(1,2) by (simp add: seasonal_diff_def le)
qed

lemma undifferencing_seasonal:
  fixes k :: nat
  assumes "0 < s" "s < length series"
  defines "ext \<equiv> map (\<lambda>i. series ! (length series - s + i mod s)) [0..<k]"
  shows "invertDifferencing (replicate k 0) series 0 s 1 = Some ext
       \<and> applyDifferencing series 0 s 1
           = Some (map2 (-) (drop s series) (take (length series - s) series))
       \<and> applyDifferencing (series @ ext) 0 s 1
           = Some (map2 (-) (drop s series) (take (length series - s) series) @ replicate k 0)"
proof -
  have "invertDifferencing (replicate k 0) series 0 s 1 = Some ext"
    using assms(1,2) by (simp add: invertDifferencing_def seasonal_undiff_zeros ext_def)
  moreover have "applyDifferencing series 0 s 1
      = Some (map2 (-) (drop s series) (take (length series - s) series))"
    using assms(1,2) by (simp add: applyDifferencing_def seasonal_diff_def)
  moreover have "applyDifferencing (series @ ext) 0 s 1
      = Some (map2 (-) (drop s series) (take (length series - s) series) @ replicate k 0)"
    using seasonal_diff_continued [OF assms(1,2), of k]
    by (simp add: applyDifferencing_def ext_def)
  ultimately show ?thesis by simp
qed

subsection \<open>Seasonality detection on a wave\<close>

lemma wave_52_list:
  "wave_52 = [1, 0, -1, 0, 1, 0, -1, 0, 1, 0, -1, 0, 1, 0, -1, 0, 1, 0, -1, 0, 1, 0, -1, 0,
              1, 0, -1, 0, 1, 0, -1, 0, 1, 0, -1, 0, 1, 0, -1, 0, 1, 0, -1, 0, 1, 0, -1, 0,
              1, 0, -1, 0]"
  by (simp add: wave_52_def eval_nat_numeral)

lemma centered_wave: "centered wave_52 = wave_52"
  unfolding centered_def by (simp add: np_mean_def wave_52_list)

lemma len_wave: "length wave_52 = 52"
  by (simp add: wave_52_list)

lemma upt26: "[0..<26] = [0,1,2,3,4,5,6,7,8,9,10,11,12,13,14,15,16,17,18,19,20,21,22,23,24,25]"
  by (simp add: upt_rec)

lemma lags_wave:
  "map (correlate_lag wave_52) [0..<26]
   = [26, 0, -25, 0, 24, 0, -23, 0, 22, 0, -21, 0, 20, 0, -19, 0, 18, 0, -17, 0, 16, 0, -15, 0,
      14, 0]"
  unfolding upt26 by (simp add: correlate_lag_def wave_52_list)

lemma upt_2_25: "[2..<25] = [2,3,4,5,6,7,8,9,10,11,12,13,14,15,16,17,18,19,20,21,22,23,24]"
  by (simp add: upt_rec)

lemma autocorr_wave:
  "detect_autocorr env_plain wave_52
      = Some [1, 0, - (25 / 26), 0, 12 / 13, 0, - (23 / 26), 0, 11 / 13, 0,
              - (21 / 26), 0, 10 / 13, 0, - (19 / 26), 0, 9 / 13, 0, - (17 / 26), 0,
              8 / 13, 0, - (15 / 26), 0, 7 / 13, 0]"
proof -
  have "detect_autocorr env_plain wave_52
      = Some (map (\<lambda>v. v / map (correlate_lag wave_52) [0..<26] ! 0)
               (map (correlate_lag wave_52) [0..<26]))"
    by (simp add: detect_autocorr_def Let_def env_plain_def centered_wave len_wave
        del: map_map)
  then show ?thesis
    unfolding lags_wave by simp
qed

lemma detect_wave: "detectSeasonality env_plain cfg wave_52 = 4"
  unfolding detectSeasonality_def autocorr_wave
  by (simp add: len_wave upt_2_25)

lemma forecast_state_parsed:
  assumes "running svc" "10 \<le> length h" "parse_timestamps e h = Some ts" "sortable e ts"
  shows "config (snd (forecast e svc h steps)) = config (select_season e svc (map pt_value h))"
proof -
  have "snd (forecast e svc h steps)
      = snd (run_sarima e (select_season e svc (map pt_value h)) ts (map pt_value h) steps)"
    using assms by (simp add: forecast_def Let_def split: prod.splits option.splits)
  moreover have "config (snd (run_sarima e svc1 ts v steps)) = config svc1" for svc1 v
    by (subst run_sarima_frame) simp
  ultimately show ?thesis
    by simp
qed

lemma predict_sarima_state:
  assumes "10 \<le> length h"
    and "\<not> (use_granite st \<and> context_length st \<le> length (working_data e st h agg))"
    and "fst (forecast e (sarimaFallback st) (working_data e st h agg)
           (min (forecast_horizon st) 24)) \<noteq> None"
  shows "snd (predict e st h agg exo) =
     st\<lparr>sarimaFallback := snd (forecast e (sarimaFallback st) (working_data e st h agg)
                                 (min (forecast_horizon st) 24)),
        useFallback := True\<rparr>"
proof -
  let ?wd = "working_data e st h agg" and ?steps = "min (forecast_horizon st) 24"
  obtain r svc where f: "forecast e (sarimaFallback st) ?wd ?steps = (Some r, svc)"
    using assms(3) by (cases "forecast e (sarimaFallback st) ?wd ?steps") auto
  show ?thesis
    unfolding predict_unfold [OF assms(1)] Let_def
      select_forecast_sarima [OF assms(2) f] f
    by simp
qed

subsection \<open>A division of zero by zero that nothing absorbs\<close>

text \<open>
  The ten points 20, 21, ..., 29 under the default configuration: the seasonal
  differencing is skipped (10 points, period 24), the first differences are nine times 1,
  their centred values are all 0, and the autocorrelation is normalised by 0.
\<close>

lemma fitArCoefficients_ramp:
  "fitArCoefficients env_nan_solver [1, 1, 1, 1, 1, 1, 1, 1, 1] 1 = [NonFinite]"
  by (simp add: fitArCoefficients_def centered_def np_mean_def correlate_lag_def np_divide_def
      env_nan_solver_def Let_def upt_rec)

lemma simpleSarimaForecast_ramp:
  "simpleSarimaForecast env_nan_solver SarimaConfig_default
     [20, 21, 22, 23, 24, 25, 26, 27, 28, 29] 5
   = [NonFinite, NonFinite, NonFinite, NonFinite, NonFinite]"
proof -
  let ?cfg = SarimaConfig_default
  have cfg: "cfg_p ?cfg = 1" "cfg_d ?cfg = 1" "cfg_D ?cfg = 1" "cfg_s ?cfg = 24"
    by (simp_all add: SarimaConfig_default_def)
  have d: "applyDifferencing [20, 21, 22, 23, 24, 25, 26, 27, 28, 29] 1 24 1
      = Some [1, 1, 1, 1, 1, 1, 1, 1, 1]"
    by (simp add: applyDifferencing_def seasonal_diff_def diff_step_def np_diff_def)
  have l: "ar_forecast_loop 5 1 [NonFinite] [1, 1, 1, 1, 1, 1, 1, 1, 1] [Fin 1] []
      = Some [NonFinite, NonFinite, NonFinite, NonFinite, NonFinite]"
    by (simp add: eval_nat_numeral np_dot_def py_last_def)
  have i: "invertDifferencing [NonFinite, NonFinite, NonFinite, NonFinite, NonFinite]
      [Fin 20, Fin 21, Fin 22, Fin 23, Fin 24, Fin 25, Fin 26, Fin 27, Fin 28, Fin 29] 1 24 1
      = Some [NonFinite, NonFinite, NonFinite, NonFinite, NonFinite]"
    by (simp add: invertDifferencing_def undiff_step_def np_cumsum_def seasonal_undiff_def)
  have b: "py_last 1 [1, 1, 1, 1, 1, 1, 1, 1, 1 :: real] = [1]"
    by (simp add: py_last_def)
  note facts = d fitArCoefficients_ramp b l i
  have "simpleSarimaForecast_try env_nan_solver ?cfg [20, 21, 22, 23, 24, 25, 26, 27, 28, 29] 5
      = Some [NonFinite, NonFinite, NonFinite, NonFinite, NonFinite]"
    by (simp add: simpleSarimaForecast_try_def cfg facts [unfolded One_nat_def])
  then show ?thesis
    by (simp add: simpleSarimaForecast_def)
qed

lemma forecast_ramp_not_finite:
  "\<exists>r. fst (forecast env_nan_solver (SarimaFallbackService_init SarimaConfig_default)
            history_10 5) = Some r
       \<and> fr_predictions r = [NonFinite, NonFinite, NonFinite, NonFinite, NonFinite]"
proof -
  let ?svc = "SarimaFallbackService_init SarimaConfig_default"
  let ?vs = "[20, 21, 22, 23, 24, 25, 26, 27, 28, 29 :: real]"
  have e: "to_datetime env_nan_solver = parse_iso_hour" "\<And>t x. ts_add env_nan_solver t x \<noteq> None"
    "\<And>a b. total_seconds env_nan_solver a b \<noteq> None" "\<And>ts. sortable env_nan_solver ts"
    "\<not> STATSMODELS_AVAILABLE env_nan_solver"
    by (simp_all add: env_nan_solver_def env_plain_def)
  have run: "running ?svc"
    by (simp add: SarimaFallbackService_init_def)
  obtain r where r: "fst (forecast env_nan_solver ?svc (hourly_points ?vs) 5) = Some r"
    using forecast_clock_returns [OF e(1,2) run _ _ e(3,4), of ?vs 5] by auto
  have "parse_timestamps env_nan_solver (hourly_points ?vs) \<noteq> None"
    using r forecast_result_iff [of env_nan_solver ?svc "hourly_points ?vs" 5] by auto
  then obtain ts where ts: "parse_timestamps env_nan_solver (hourly_points ?vs) = Some ts"
    by blast
  have sel: "select_season env_nan_solver ?svc ?vs = ?svc"
    by (rule select_season_short) simp
  have "fr_predictions r = simpleSarimaForecast env_nan_solver (config ?svc) ?vs 5"
    using forecast_predictions [OF r ts] e(5)
    by (simp add: pt_value_hourly_points sel run_sarima_def)
  then have "fr_predictions r = [NonFinite, NonFinite, NonFinite, NonFinite, NonFinite]"
    using simpleSarimaForecast_ramp by (simp add: SarimaFallbackService_init_def)
  then show ?thesis
    using r by (simp add: history_10_def)
qed

text \<open>
  A history held at one value (the 200 points at 20 of the specification's first
  scenario): no season is detected, the differences are all 0, and the normalisation is
  again by 0.
\<close>

lemma correlate_lag_zeros: "correlate_lag (replicate n 0) k = 0"
proof -
  have "map2 (*) (drop k (replicate n (0::real))) (replicate n 0) = replicate (n - k) 0"
    by (simp add: zip_replicate map_replicate_const min_def)
  then show ?thesis
    by (simp add: correlate_lag_def sum_list_replicate)
qed

lemma centered_constant: "centered (replicate n c) = replicate n 0"
  by (cases "n = 0") (simp_all add: centered_def np_mean_replicate map_replicate_const)

lemma detectSeasonality_constant:
  assumes "\<not> STATSMODELS_AVAILABLE e"
  shows "detectSeasonality e cfg (replicate n c) = cfg_s cfg"
proof (cases "n < 50")
  case True
  then show ?thesis by (simp add: detectSeasonality_def)
next
  case False
  define m where "m = min 100 (n div 2)"
  have a: "detect_autocorr e (replicate n c) = Some (replicate m 0)"
    using assms
    by (simp add: detect_autocorr_def Let_def centered_constant correlate_lag_zeros m_def
        map_replicate_const comp_def)
  have "filter (\<lambda>i. replicate m (0::real) ! (i - 1) < replicate m 0 ! i
                    \<and> replicate m (0::real) ! (i + 1) < replicate m 0 ! i
                    \<and> 0.3 < replicate m (0::real) ! i) [2..<m - 1] = []"
    by (auto simp: filter_empty_conv)
  then show ?thesis
    using False by (simp add: detectSeasonality_def a)
qed

lemma fitArCoefficients_zeros:
  assumes "2 \<le> n"
  shows "fitArCoefficients env_nan_solver (replicate n 0) 1 = [NonFinite]"
proof -
  have acorr: "map (\<lambda>k. np_divide (correlate_lag (replicate n 0) k)
                             (correlate_lag (replicate n 0) 0)) [0..<n]
      = replicate n NonFinite"
    by (simp add: correlate_lag_zeros np_divide_def map_replicate_const)
  have r: "take 1 (drop 1 (replicate n NonFinite)) = [NonFinite]"
    using assms by (cases n) (simp_all add: take_Suc_conv_app_nth)
  show ?thesis
    using assms
    by (simp add: fitArCoefficients_def centered_constant acorr r env_nan_solver_def Let_def)
qed

lemma ar_forecast_loop_not_finite:
  "ar_forecast_loop 5 1 [NonFinite] ds [Fin x] []
     = Some [NonFinite, NonFinite, NonFinite, NonFinite, NonFinite]"
  by (simp add: eval_nat_numeral np_dot_def py_last_def)

lemma invertDifferencing_not_finite:
  assumes "orig \<noteq> []" "0 < s"
  shows "invertDifferencing [NonFinite, NonFinite, NonFinite, NonFinite, NonFinite] orig 1 s 1
     = Some [NonFinite, NonFinite, NonFinite, NonFinite, NonFinite]"
  using assms
  by (simp add: invertDifferencing_def undiff_step_def np_cumsum_def seasonal_undiff_def)

lemma simpleSarimaForecast_constant:
  "simpleSarimaForecast env_nan_solver SarimaConfig_default (replicate 200 20) 5
   = [NonFinite, NonFinite, NonFinite, NonFinite, NonFinite]"
proof -
  let ?cfg = SarimaConfig_default
  have cfg: "cfg_p ?cfg = 1" "cfg_d ?cfg = 1" "cfg_D ?cfg = 1" "cfg_s ?cfg = 24"
    by (simp_all add: SarimaConfig_default_def)
  have d: "applyDifferencing (replicate 200 20) 1 24 1 = Some (replicate 175 0)"
    using applyDifferencing_constant [of 24 200 20] by simp
  have f: "fitArCoefficients env_nan_solver (replicate 175 0) 1 = [NonFinite]"
    by (rule fitArCoefficients_zeros) simp
  have b: "map Fin (py_last 1 (replicate 175 0)) = [Fin 0]"
    by (simp add: py_last_replicate)
  have l: "ar_forecast_loop 5 1 [NonFinite] (replicate 175 0) [Fin 0] []
      = Some [NonFinite, NonFinite, NonFinite, NonFinite, NonFinite]"
    by (rule ar_forecast_loop_not_finite)
  have i: "invertDifferencing [NonFinite, NonFinite, NonFinite, NonFinite, NonFinite]
      (replicate 200 (Fin 20)) 1 24 1
      = Some [NonFinite, NonFinite, NonFinite, NonFinite, NonFinite]"
    by (rule invertDifferencing_not_finite) simp_all
  note facts = d f b l i
  have "simpleSarimaForecast_try env_nan_solver ?cfg (replicate 200 20) 5
      = Some [NonFinite, NonFinite, NonFinite, NonFinite, NonFinite]"
    by (simp add: simpleSarimaForecast_try_def cfg facts [unfolded One_nat_def])
  then show ?thesis
    by (simp add: simpleSarimaForecast_def)
qed

lemma forecast_constant_not_finite:
  "\<exists>r. fst (forecast env_nan_solver (SarimaFallbackService_init SarimaConfig_default)
            history_200 5) = Some r
       \<and> fr_predictions r = [NonFinite, NonFinite, NonFinite, NonFinite, NonFinite]
       \<and> fr_confidence r = 19 / 20"
proof -
  let ?svc = "SarimaFallbackService_init SarimaConfig_default"
  let ?vs = "replicate 200 (20 :: real)"
  have e: "to_datetime env_nan_solver = parse_iso_hour" "\<And>t x. ts_add env_nan_solver t x \<noteq> None"
    "\<And>a b. total_seconds env_nan_solver a b \<noteq> None" "\<And>ts. sortable env_nan_solver ts"
    "\<not> STATSMODELS_AVAILABLE env_nan_solver"
    by (simp_all add: env_nan_solver_def env_plain_def)
  have run: "running ?svc"
    by (simp add: SarimaFallbackService_init_def)
  obtain r where r: "fst (forecast env_nan_solver ?svc (hourly_points ?vs) 5) = Some r"
    using forecast_clock_returns [OF e(1,2) run _ _ e(3,4), of ?vs 5] by auto
  have "parse_timestamps env_nan_solver (hourly_points ?vs) \<noteq> None"
    using r forecast_result_iff [of env_nan_solver ?svc "hourly_points ?vs" 5] by auto
  then obtain ts where ts: "parse_timestamps env_nan_solver (hourly_points ?vs) = Some ts"
    by blast
  have sel: "select_season env_nan_solver ?svc ?vs = ?svc"
    by (simp add: select_season_def Let_def detectSeasonality_constant [OF e(5)])
  have "fr_predictions r = simpleSarimaForecast env_nan_solver (config ?svc) ?vs 5"
    using forecast_predictions [OF r ts] e(5)
    by (simp add: pt_value_hourly_points sel run_sarima_def)
  then have p: "fr_predictions r = [NonFinite, NonFinite, NonFinite, NonFinite, NonFinite]"
    using simpleSarimaForecast_constant by (simp add: SarimaFallbackService_init_def)
  have "fr_confidence r = forecast_confidence ?vs"
    using forecast_confidence_result [OF r] by (simp add: pt_value_hourly_points)
  then have c: "fr_confidence r = 19 / 20"
    using forecast_confidence_constant [of ?vs 20] by simp
  show ?thesis
    using r p c by (simp add: history_200_def)
qed

subsection \<open>The hourly means of two hours of humidity\<close>





section \<open>The claims\<close>

subsection \<open>C1: when the fallback returns a result\<close>

text \<open>
  C1, as amended. For every history of at least 10 points, a running service whose
  timestamps parse and can be put in order, and whose future timestamps can be computed,
  returns a \<open>ForecastResult\<close>. An exception inside the estimation is absorbed: without
  statsmodels the predictions are those of the simplified forecast, \<open>steps\<close> of them, and
  when its \<^verbatim>\<open>try\<close> block raises they are the mean of the last 10 raw values, a finite
  number, repeated \<open>steps\<close> times; with statsmodels, a fit or forecast that raises leads
  to the same simplified forecast on the values in the order of their timestamps.
  Nothing is said of predictions that come out of a \<^verbatim>\<open>try\<close> block that did not raise:
  they need not be finite.
\<close>

theorem forecast_returns_when_running:
  assumes "running svc" and "10 \<le> length dataHistory"
    and "parse_timestamps e dataHistory = Some timestamps"
    and "sortable e timestamps"
    and "future_timestamps e timestamps steps \<noteq> None"
  shows
    "let values = map pt_value dataHistory;
         cfg = config (select_season e svc values);
         series = sort_key fst (zip timestamps values)
     in \<exists>r. fst (forecast e svc dataHistory steps) = Some r
        \<and> (\<not> STATSMODELS_AVAILABLE e \<longrightarrow>
              length (fr_predictions r) = steps
            \<and> fr_predictions r = simpleSarimaForecast e cfg values steps
            \<and> (simpleSarimaForecast_try e cfg values steps = None \<longrightarrow>
                 fr_predictions r = np_full steps (Fin (np_mean (py_last 10 values)))))
        \<and> (STATSMODELS_AVAILABLE e \<longrightarrow>
              (\<forall>v. SARIMAX e cfg series steps \<noteq> Forecast v) \<longrightarrow>
              length (fr_predictions r) = steps
            \<and> fr_predictions r = simpleSarimaForecast e cfg (map snd series) steps
            \<and> (simpleSarimaForecast_try e cfg (map snd series) steps = None \<longrightarrow>
                 fr_predictions r
                   = np_full steps (Fin (np_mean (py_last 10 (map snd series))))))"
proof -
  define vals where "vals = map pt_value dataHistory"
  define svc1 where "svc1 = select_season e svc vals"
  define series where "series = sort_key fst (zip timestamps vals)"
  have "fst (forecast e svc dataHistory steps) \<noteq> None"
    unfolding forecast_result_iff using assms by simp
  then obtain r where r: "fst (forecast e svc dataHistory steps) = Some r"
    by blast
  have p: "fr_predictions r = fst (run_sarima e svc1 timestamps vals steps)"
    using forecast_predictions [OF r assms(3)] by (simp add: svc1_def vals_def)
  have a: "\<not> STATSMODELS_AVAILABLE e \<Longrightarrow>
      fr_predictions r = simpleSarimaForecast e (config svc1) vals steps"
    using p by (simp add: run_sarima_def)
  have b: "STATSMODELS_AVAILABLE e \<Longrightarrow> (\<forall>v. SARIMAX e (config svc1) series steps \<noteq> Forecast v) \<Longrightarrow>
      fr_predictions r = simpleSarimaForecast e (config svc1) (map snd series) steps"
    using p
    by (auto simp: run_sarima_def statsmodelsSarimaForecast_def series_def
        split: sarimax_outcome.splits)
  show ?thesis
    unfolding Let_def vals_def [symmetric] svc1_def [symmetric] series_def [symmetric]
    using r a b
    by (auto simp: length_simpleSarimaForecast simpleSarimaForecast_absorbs)
qed

theorem forecast_returns_when_running_witness:
  "running (SarimaFallbackService_init config_period_0)
   \<and> 10 \<le> length history_10
   \<and> parse_timestamps env_plain history_10
       = Some [0, 3600, 7200, 10800, 14400, 18000, 21600, 25200, 28800, 32400]
   \<and> sortable env_plain [0, 3600, 7200, 10800, 14400, 18000, 21600, 25200, 28800, 32400]
   \<and> \<not> STATSMODELS_AVAILABLE env_plain
   \<and> (\<exists>r. fst (forecast env_plain (SarimaFallbackService_init config_period_0) history_10 5)
            = Some r
          \<and> fr_predictions r
              = [Fin (49 / 2), Fin (49 / 2), Fin (49 / 2), Fin (49 / 2), Fin (49 / 2)])"
proof -
  let ?svc = "SarimaFallbackService_init config_period_0"
  let ?vs = "[20, 21, 22, 23, 24, 25, 26, 27, 28, 29 :: real]"
  let ?ts = "[0, 3600, 7200, 10800, 14400, 18000, 21600, 25200, 28800, 32400 :: int]"
  have run: "running ?svc"
    by (simp add: SarimaFallbackService_init_def)
  have len: "10 \<le> length history_10"
    by (simp add: history_10_def length_hourly_points)
  have ts: "parse_timestamps env_plain history_10 = Some ?ts"
    unfolding history_10_def using parse_hourly_points [of ?vs] by (simp add: upt_rec)
  have srt: "sortable env_plain ?ts"
    by (simp add: env_plain_def)
  have fut: "future_timestamps env_plain ?ts 5 \<noteq> None"
    by (rule future_timestamps_env_plain)
  have vs: "map pt_value history_10 = ?vs"
    by (simp add: history_10_def pt_value_hourly_points)
  have sel: "select_season env_plain ?svc ?vs = ?svc"
    by (rule select_season_short) simp
  have cfg: "config ?svc = config_period_0"
    by (simp add: SarimaFallbackService_init_def)
  have absorbed: "simpleSarimaForecast_try env_plain config_period_0 ?vs 5 = None"
    by (simp add: simpleSarimaForecast_try_def applyDifferencing_def seasonal_diff_def
        config_period_0_def SarimaConfig_default_def)
  have mean: "np_full 5 (Fin (np_mean (py_last 10 ?vs)))
      = [Fin (49 / 2), Fin (49 / 2), Fin (49 / 2), Fin (49 / 2), Fin (49 / 2)]"
    by (simp add: np_full_def np_mean_def py_last_def eval_nat_numeral)
  have st: "\<not> STATSMODELS_AVAILABLE env_plain"
    by (simp add: env_plain_def)
  show ?thesis
    using forecast_returns_when_running [OF run len ts srt fut] run len ts srt st absorbed mean
    unfolding Let_def vs sel cfg by auto
qed

text \<open>
  C1 as stated fails. On ten points, a stopped service returns no result, and so does a
  running one when a timestamp does not parse, when the timestamps cannot be put in
  order, or when a future timestamp is out of range. And not every numerical failure is
  absorbed: on the ten points 20, 21, ..., 29 the differences are all 1, the
  normalisation of the autocorrelation is \<open>0 / 0\<close>, nothing is raised, and with a solver
  that hands back \<^verbatim>\<open>nan\<close> for a system of \<^verbatim>\<open>nan\<close> the result holds five predictions that
  are not finite, not the mean of the last 10 values. The same happens on 200 points held
  at 20.
\<close>

theorem forecast_no_result_counterexample:
  "10 \<le> length history_10
   \<and> fst (forecast env_plain sarima_stopped history_10 5) = None
   \<and> 10 \<le> length history_unparsed
   \<and> running (SarimaFallbackService_init SarimaConfig_default)
   \<and> fst (forecast env_plain (SarimaFallbackService_init SarimaConfig_default)
            history_unparsed 5) = None
   \<and> fst (forecast env_unsortable (SarimaFallbackService_init SarimaConfig_default)
            history_10 5) = None
   \<and> fst (forecast env_out_of_range (SarimaFallbackService_init SarimaConfig_default)
            history_10 5) = None
   \<and> map_option fr_predictions
        (fst (forecast env_nan_solver (SarimaFallbackService_init SarimaConfig_default)
               history_10 5))
       = Some [NonFinite, NonFinite, NonFinite, NonFinite, NonFinite]
   \<and> map_option fr_predictions
        (fst (forecast env_nan_solver (SarimaFallbackService_init SarimaConfig_default)
               history_200 5))
       = Some [NonFinite, NonFinite, NonFinite, NonFinite, NonFinite]"
proof -
  let ?svc = "SarimaFallbackService_init SarimaConfig_default"
  have len: "10 \<le> length history_10"
    by (simp add: history_10_def length_hourly_points)
  have stopped: "fst (forecast env_plain sarima_stopped history_10 5) = None"
    by (simp add: forecast_def sarima_stopped_def)
  have len': "10 \<le> length history_unparsed"
    by (simp add: history_unparsed_def history_10_def length_hourly_points)
  have "parse_timestamps env_plain history_unparsed = None"
    by (simp add: parse_timestamps_def history_unparsed_def env_plain_def parse_iso_hour_def)
  then have unparsed: "fst (forecast env_plain ?svc history_unparsed 5) = None"
    using forecast_result_iff [of env_plain _ history_unparsed 5] by auto
  have "\<not> sortable env_unsortable ts" for ts
    by (simp add: env_unsortable_def)
  then have unsorted: "fst (forecast env_unsortable ?svc history_10 5) = None"
    using forecast_result_iff [of env_unsortable _ history_10 5] by auto
  have "future_timestamps env_out_of_range ts 5 = None" for ts
    by (simp add: future_timestamps_def env_out_of_range_def env_plain_def Let_def
        eval_nat_numeral split: option.splits)
  then have far: "fst (forecast env_out_of_range ?svc history_10 5) = None"
    using forecast_result_iff [of env_out_of_range _ history_10 5] by auto
  have nan: "map_option fr_predictions (fst (forecast env_nan_solver ?svc history_10 5))
      = Some [NonFinite, NonFinite, NonFinite, NonFinite, NonFinite]"
    using forecast_ramp_not_finite by simp
  have nan': "map_option fr_predictions (fst (forecast env_nan_solver ?svc history_200 5))
      = Some [NonFinite, NonFinite, NonFinite, NonFinite, NonFinite]"
    using forecast_constant_not_finite by auto
  show ?thesis
    using len stopped len' unparsed unsorted far nan nan'
    by (simp add: SarimaFallbackService_init_def)
qed

subsection \<open>C2: too little data\<close>

text \<open>
  C2. For every history of fewer than 10 points \<^verbatim>\<open>predict\<close> returns no result, whatever
  \<open>aggregateData\<close> and the exogenous data are; the service is left as it was.
\<close>

theorem predict_insufficient_data:
  "length data_history < 10 \<Longrightarrow>
     predict e st data_history aggregateData exogenousData = (None, st)"
  by (simp add: predict_def)

theorem predict_insufficient_data_witness:
  "length (take 9 history_10) < 10
   \<and> predict env_plain service_plain (take 9 history_10) True (Some humidity_90)
     = (None, service_plain)"
  using predict_insufficient_data [of "take 9 history_10" env_plain service_plain True
      "Some humidity_90"]
  by simp

subsection \<open>C3: the fallback decision\<close>

text \<open>
  C3. \<^verbatim>\<open>shouldUseFallback\<close> returns \<open>True\<close> exactly when the primary predictor is
  unavailable or the MAE exceeds \<open>maeThreshold\<close>: for the fallback service, where
  \<open>graniteMae = None\<close> says unavailable, and for the orchestrator, where
  \<^verbatim>\<open>GRANITE_AVAILABLE\<close> says available and the MAE is \<open>currentMae\<close>. Whenever the
  fallback service is asked, its flag \<open>fallbackActive\<close> afterwards is the answer, so an
  available primary with an MAE at or below the threshold switches the fallback off.
\<close>

theorem shouldUseFallback_iff:
  "(fst (shouldUseFallback svc graniteMae) \<longleftrightarrow>
      (case graniteMae of None \<Rightarrow> True | Some m \<Rightarrow> maeThreshold (config svc) < m))
   \<and> fallbackActive (snd (shouldUseFallback svc graniteMae))
       = fst (shouldUseFallback svc graniteMae)
   \<and> (fst (ForecastService_shouldUseFallback e st) \<longleftrightarrow>
        \<not> GRANITE_AVAILABLE e
        \<or> maeThreshold (config (sarimaFallback st)) < fs_currentMae st)
   \<and> (GRANITE_AVAILABLE e \<longrightarrow>
        fallbackActive (sarimaFallback (snd (ForecastService_shouldUseFallback e st)))
        = fst (ForecastService_shouldUseFallback e st))"
  by (auto simp: shouldUseFallback_def ForecastService_shouldUseFallback_def
      split: option.splits prod.splits)

theorem shouldUseFallback_iff_witness:
  "fst (shouldUseFallback (SarimaFallbackService_init SarimaConfig_default) None)
   \<and> fst (shouldUseFallback (SarimaFallbackService_init SarimaConfig_default) (Some 6))
   \<and> \<not> fst (shouldUseFallback
         ((SarimaFallbackService_init SarimaConfig_default)\<lparr>fallbackActive := True\<rparr>) (Some 5))
   \<and> \<not> fallbackActive (snd (shouldUseFallback
         ((SarimaFallbackService_init SarimaConfig_default)\<lparr>fallbackActive := True\<rparr>) (Some 5)))
   \<and> fst (ForecastService_shouldUseFallback env_plain service_plain)
   \<and> GRANITE_AVAILABLE env_granite
   \<and> \<not> fst (ForecastService_shouldUseFallback env_granite service_granite)
   \<and> fst (ForecastService_shouldUseFallback env_granite (service_granite\<lparr>fs_currentMae := 7\<rparr>))"
  using shouldUseFallback_iff [of "SarimaFallbackService_init SarimaConfig_default" None env_plain
      service_plain]
    shouldUseFallback_iff [of "SarimaFallbackService_init SarimaConfig_default" "Some 6"
      env_granite service_granite]
    shouldUseFallback_iff [of "(SarimaFallbackService_init SarimaConfig_default)\<lparr>fallbackActive := True\<rparr>"
      "Some 5" env_granite "service_granite\<lparr>fs_currentMae := 7\<rparr>"]
  by (simp add: SarimaFallbackService_init_def SarimaConfig_default_def env_plain_def
      env_granite_def service_granite_def service_plain_def ForecastService_init_def)

subsection \<open>C4: the number of predictions\<close>

text \<open>
  C4, as amended. Let statsmodels keep its contract (a forecast of \<open>n\<close> steps has \<open>n\<close>
  values). For every history for which \<^verbatim>\<open>predict\<close> returns a result, the number of
  predictions is at most \<open>min(requestedHorizon, 24)\<close>; it is exactly that number
  when the SARIMA fallback or the exponential smoothing produced the forecast, and at
  least 1 when Granite did, whose values that are not finite numbers are dropped and
  not replaced.
\<close>

theorem predict_number_of_predictions:
  assumes "fst (predict e st data_history aggregateData exogenousData) = Some r"
    and "\<forall>cfg series n v. SARIMAX e cfg series n = Forecast v \<longrightarrow> length v = n"
    and "\<forall>vs n v. ExponentialSmoothing e vs n = Some v \<longrightarrow> length v = n"
  shows "length (predictions r) \<le> min (forecast_horizon st) 24
       \<and> (model r \<noteq> ''IBM Granite TTM-R2'' \<longrightarrow>
            length (predictions r) = min (forecast_horizon st) 24)
       \<and> (model r = ''IBM Granite TTM-R2'' \<longrightarrow> 1 \<le> length (predictions r))
       \<and> forecast_horizon_hours r = min (forecast_horizon st) 24"
proof -
  let ?steps = "min (forecast_horizon st) 24"
  obtain fv m st' where
    sel: "select_forecast e st (working_data e st data_history aggregateData) ?steps
            = (Some fv, m, st')" and
    fin: "predict_finish e st' data_history (working_data e st data_history aggregateData)
            (aggregates st data_history aggregateData) ?steps fv m exogenousData = Some r"
    using predict_result [OF assms(1)] by blast
  have "length fv \<le> ?steps \<and> (m \<noteq> ''IBM Granite TTM-R2'' \<longrightarrow> length fv = ?steps)
       \<and> (m = ''IBM Granite TTM-R2'' \<longrightarrow> 1 \<le> length fv)"
    using assms(2,3) by (intro select_forecast_length [OF sel]) blast+
  then show ?thesis
    using predict_finish_result [OF fin] by simp
qed

theorem predict_number_of_predictions_witness:
  "fst (predict env_plain service_plain history_10 True None) \<noteq> None
   \<and> model (the (fst (predict env_plain service_plain history_10 True None))) = ''SARIMA''
   \<and> length (predictions (the (fst (predict env_plain service_plain history_10 True None))))
       = 24"
proof -
  have "\<exists>r. fst (predict env_plain service_plain history_10 True None) = Some r
      \<and> model r = ''SARIMA''
      \<and> useFallback (snd (predict env_plain service_plain history_10 True None))"
    unfolding history_10_def
    by (rule predict_clock_sarima)
      (simp_all add: clock_env_plain service_plain_def ForecastService_init_def
        SarimaFallbackService_init_def env_plain_def aggregates_def length_hourly_points)
  then obtain r where r: "fst (predict env_plain service_plain history_10 True None) = Some r"
    and m: "model r = ''SARIMA''"
    by blast
  have "length (predictions r) = min (forecast_horizon service_plain) 24"
    using predict_number_of_predictions [OF r] m by (simp add: env_plain_def)
  then show ?thesis
    using r m by (simp add: service_plain_def ForecastService_init_def)
qed

text \<open>
  C4 as stated fails when Granite produces the forecast: with a horizon of 5 and a
  pipeline whose second value is \<^verbatim>\<open>nan\<close>, the result has 4 predictions.
\<close>

theorem predict_number_of_predictions_counterexample:
  "fst (predict env_granite service_granite_short history_10 False None) \<noteq> None
   \<and> model (the (fst (predict env_granite service_granite_short history_10 False None)))
       = ''IBM Granite TTM-R2''
   \<and> length (predictions
        (the (fst (predict env_granite service_granite_short history_10 False None)))) = 4
   \<and> min (forecast_horizon service_granite_short) 24 = 5"
proof -
  let ?st = "service_granite_short"
  have len: "length history_10 = 10"
    by (simp add: history_10_def length_hourly_points)
  let ?fv = "[Fin (43 / 2), Fin 22, Fin (45 / 2), Fin 23]"
  have g: "granite_forecast env_granite ?st history_10 5
      = (Some ?fv, ?st\<lparr>model_loaded := True\<rparr>)"
    using sanitize_example
    by (simp add: granite_forecast_def load_granite_model_def Let_def
        service_granite_short_def ForecastService_init_def env_granite_def env_plain_def)
  have "try_granite env_granite ?st history_10 5
      = (Some ?fv, ''IBM Granite TTM-R2'', ?st\<lparr>model_loaded := True\<rparr>)"
    unfolding try_granite_def g
    by (simp add: len service_granite_short_def ForecastService_init_def env_granite_def)
  then have sel: "select_forecast env_granite ?st history_10 5
      = (Some ?fv, ''IBM Granite TTM-R2'', ?st\<lparr>model_loaded := True\<rparr>)"
    by (simp add: select_forecast_def try_sarima_keeps try_exponential_smoothing_keeps)
  have ne: "history_10 \<noteq> []"
    using len by auto
  have p: "\<exists>t. to_datetime env_granite (pt_timestamp pt) = Some t"
    if "pt \<in> set history_10" for pt
    using that unfolding history_10_def clock_env_plain
    by (rule hourly_points_parse) simp
  obtain r where fin: "predict_finish env_granite (?st\<lparr>model_loaded := True\<rparr>) history_10
      history_10 (aggregates ?st history_10 False) 5 ?fv
      ''IBM Granite TTM-R2'' None = Some r"
    using predict_finish_returns [OF ne p clock_env_plain(4) clock_env_plain(7)] by blast
  have steps: "min (forecast_horizon ?st) 24 = 5"
    by (simp add: service_granite_short_def ForecastService_init_def)
  have l10: "10 \<le> length history_10"
    using len by simp
  have wd: "working_data env_granite ?st history_10 False = history_10"
    by (simp add: working_data_def aggregates_def)
  have "predict env_granite ?st history_10 False None = (Some r, ?st\<lparr>model_loaded := True\<rparr>)"
    unfolding predict_unfold [OF l10] Let_def steps wd sel
    using fin by simp
  then show ?thesis
    using predict_finish_result [OF fin] steps by simp
qed

subsection \<open>C5: the MAE window\<close>

text \<open>
  C5. After every sequence of calls to \<^verbatim>\<open>updateMaeTracking\<close> on a service as
  constructed, \<open>predictionHistory\<close> and \<open>actualHistory\<close> have the same length, at most
  \<open>maeWindowSize\<close>; they hold the last \<open>maeWindowSize\<close> pairs in the order of the calls
  (the oldest pairs are the ones evicted); and after more than \<open>maeWindowSize\<close> calls
  both have length exactly \<open>maeWindowSize\<close>.
\<close>

theorem updateMaeTracking_window:
  "let svc = updateMaeTracking_calls (SarimaFallbackService_init cfg) calls;
       W = maeWindowSize cfg
   in length (items (predictionHistory svc)) = length (items (actualHistory svc))
    \<and> length (items (predictionHistory svc)) \<le> W
    \<and> items (predictionHistory svc) = drop (length calls - W) (map fst calls)
    \<and> items (actualHistory svc) = drop (length calls - W) (map snd calls)
    \<and> zip (items (predictionHistory svc)) (items (actualHistory svc))
        = drop (length calls - W) calls
    \<and> (W < length calls \<longrightarrow>
          length (items (predictionHistory svc)) = W
        \<and> length (items (actualHistory svc)) = W)"
proof -
  let ?init = "SarimaFallbackService_init cfg"
  let ?W = "maeWindowSize cfg"
  have i: "maxlen (predictionHistory ?init) = ?W" "maxlen (actualHistory ?init) = ?W"
    "length (items (predictionHistory ?init)) \<le> ?W"
    "length (items (actualHistory ?init)) \<le> ?W"
    "items (predictionHistory ?init) = []" "items (actualHistory ?init) = []"
    by (simp_all add: SarimaFallbackService_init_def deque_new_def)
  note w = updateMaeTracking_calls_items [OF i(1-4), of calls, unfolded i(5,6), simplified]
  have z: "zip (drop (length calls - ?W) (map fst calls)) (drop (length calls - ?W) (map snd calls))
        = drop (length calls - ?W) calls"
    by (simp flip: drop_zip add: zip_map_fst_snd)
  show ?thesis
    unfolding Let_def using w z by auto
qed

theorem updateMaeTracking_window_witness:
  "maeWindowSize config_window_2 < length [(1, 2), (3, 5), (4, 4 :: real)]
   \<and> items (predictionHistory (updateMaeTracking_calls
        (SarimaFallbackService_init config_window_2) [(1, 2), (3, 5), (4, 4)])) = [3, 4]
   \<and> items (actualHistory (updateMaeTracking_calls
        (SarimaFallbackService_init config_window_2) [(1, 2), (3, 5), (4, 4)])) = [5, 4]
   \<and> length (items (predictionHistory (updateMaeTracking_calls
        (SarimaFallbackService_init config_window_2) [(1, 2), (3, 5), (4, 4)]))) = 2"
  using updateMaeTracking_window [of config_window_2 "[(1, 2), (3, 5), (4, 4)]"]
  by (simp add: Let_def config_window_2_def SarimaConfig_default_def)

subsection \<open>C6: the differencing round trip\<close>

text \<open>
  C6, at an input where the code departs from it. On 50 points held at 20, with the
  orders \<open>d = 1\<close>, \<open>D = 1\<close> and the period 24 (the defaults of \<open>SarimaConfig\<close>), the
  differenced series is zero; the inversion of five zero deltas returns five times 40.
  The continuation by 20 is the one whose differences are the zero deltas; the
  continuation by 40 differences to a jump of 20.
\<close>

theorem invertDifferencing_doubles_constant:
  "applyDifferencing (replicate 50 20) 1 24 1 = Some (replicate 25 0)
   \<and> invertDifferencing (replicate 5 0) (replicate 50 (20 :: real)) 1 24 1
       = Some (replicate 5 40)
   \<and> applyDifferencing (replicate 50 20 @ replicate 5 20) 1 24 1
       = Some (replicate 25 0 @ replicate 5 0)
   \<and> applyDifferencing (replicate 50 20 @ replicate 5 40) 1 24 1
       = Some (replicate 25 0 @ [20, 0, 0, 0, 0])"
proof -
  have a: "applyDifferencing (replicate 50 20) 1 24 1 = Some (replicate 25 0)"
    using applyDifferencing_constant [of 24 50 20] by simp
  have "applyDifferencing (replicate 55 20) 1 24 1 = Some (replicate 30 0)"
    using applyDifferencing_constant [of 24 55 20] by simp
  moreover have "replicate 55 (20 :: real) = replicate 50 20 @ replicate 5 20"
    "replicate 30 (0 :: real) = replicate 25 0 @ replicate 5 0"
    by (simp_all flip: replicate_add)
  ultimately have b: "applyDifferencing (replicate 50 20 @ replicate 5 20) 1 24 1
       = Some (replicate 25 0 @ replicate 5 0)"
    by simp
  have c: "invertDifferencing (replicate 5 0) (replicate 50 (20 :: real)) 1 24 1
      = Some (replicate 5 40)"
    using invertDifferencing_constant [of 24 50 5 "20 :: real"] by simp
  have five: "replicate 5 x = [x, x, x, x, x]" for x :: real
    by (simp add: eval_nat_numeral)
  have s: "seasonal_diff 24 (replicate 50 20 @ replicate 5 40)
      = Some (replicate 26 0 @ replicate 5 20)"
    by (simp add: seasonal_diff_def zip_append1 map_replicate_const)
  have "replicate 26 (0 :: real) = 0 # replicate 25 0"
    by (simp flip: replicate_Suc)
  then have "tl (replicate 26 (0 :: real) @ replicate 5 20) = replicate 25 0 @ replicate 5 20"
    by simp
  moreover have "zip (replicate 25 (0 :: real) @ replicate 5 20) (replicate 26 (0 :: real) @ replicate 5 20)
      = replicate 25 (0, 0) @ [(20, 0), (20, 20), (20, 20), (20, 20), (20, 20)]"
    by (simp add: zip_append1 five)
  ultimately have "np_diff (replicate 26 0 @ replicate 5 20) = replicate 25 0 @ [20, 0, 0, 0, 0]"
    by (simp add: np_diff_def map_replicate_const)
  then have d: "applyDifferencing (replicate 50 20 @ replicate 5 40) 1 24 1
       = Some (replicate 25 0 @ [20, 0, 0, 0, 0])"
    by (simp add: applyDifferencing_def s diff_step_def)
  show ?thesis
    using a b c d by simp
qed

subsection \<open>C7: the confidence\<close>

text \<open>
  C7, as amended. The confidence of a returned \<open>ForecastResult\<close> is
  \<open>clamp(1 - variance/(mean\<^sup>2 + \<epsilon>), 0.5, 0.95)\<close> with the variance over the last 50 (or
  fewer) raw values and the mean over all raw values; for a history of at most 50 points
  that is the specification's formula, and for a constant series it is 0.95.
\<close>

theorem forecast_confidence_value:
  assumes "fst (forecast e svc dataHistory steps) = Some r"
  shows
    "let vals = map pt_value dataHistory
     in fr_confidence r =
          max 0.5 (min 0.95 (1 - np_var (py_last 50 vals) / ((np_mean vals)\<^sup>2 + 1 / 1000000)))
      \<and> (length dataHistory \<le> 50 \<longrightarrow> fr_confidence r = spec_confidence vals)
      \<and> ((\<forall>pt\<in>set dataHistory. pt_value pt = c) \<longrightarrow> fr_confidence r = 0.95)"
proof -
  have c: "fr_confidence r = forecast_confidence (map pt_value dataHistory)"
    using assms by (rule forecast_confidence_result)
  have "fst (forecast e svc dataHistory steps) \<noteq> None"
    using assms by simp
  then have "10 \<le> length dataHistory"
    unfolding forecast_result_iff by simp
  then have ne: "map pt_value dataHistory \<noteq> []"
    by auto
  have k: "(\<forall>pt\<in>set dataHistory. pt_value pt = c) \<Longrightarrow>
      forecast_confidence (map pt_value dataHistory) = 19 / 20"
    using forecast_confidence_constant [OF ne, of c] by simp
  have s: "length dataHistory \<le> 50 \<Longrightarrow>
      spec_confidence (map pt_value dataHistory) = forecast_confidence (map pt_value dataHistory)"
    by (simp add: spec_confidence_def forecast_confidence_unfold Let_def py_last_short)
  show ?thesis
    unfolding Let_def c using k s by (auto simp: forecast_confidence_unfold)
qed

theorem forecast_confidence_value_witness:
  "(\<exists>r. fst (forecast env_plain (SarimaFallbackService_init SarimaConfig_default) history_200 5)
          = Some r
        \<and> fr_confidence r = 0.95)
   \<and> (\<exists>r. fst (forecast env_plain (SarimaFallbackService_init SarimaConfig_default) history_10 5)
          = Some r
        \<and> length history_10 \<le> 50
        \<and> fr_confidence r = spec_confidence (map pt_value history_10))"
proof -
  let ?svc = "SarimaFallbackService_init SarimaConfig_default"
  have "\<exists>r. fst (forecast env_plain ?svc history_200 5) = Some r"
    unfolding history_200_def
    by (rule forecast_plain_returns) (simp_all add: SarimaFallbackService_init_def)
  then obtain r where r: "fst (forecast env_plain ?svc history_200 5) = Some r"
    by blast
  have "pt_value pt = 20" if "pt \<in> set history_200" for pt
  proof -
    from that have "pt_value pt \<in> set (map pt_value history_200)"
      by simp
    then show ?thesis
      by (simp add: history_200_def pt_value_hourly_points)
  qed
  then have a: "fr_confidence r = 0.95"
    using forecast_confidence_value [OF r, of 20] by (simp add: Let_def)
  have "\<exists>r. fst (forecast env_plain ?svc history_10 5) = Some r"
    unfolding history_10_def
    by (rule forecast_plain_returns) (simp_all add: SarimaFallbackService_init_def)
  then obtain r' where r': "fst (forecast env_plain ?svc history_10 5) = Some r'"
    by blast
  have l: "length history_10 \<le> 50"
    by (simp add: history_10_def length_hourly_points)
  have b: "fr_confidence r' = spec_confidence (map pt_value history_10)"
    using forecast_confidence_value [OF r', of 0] l by (simp add: Let_def)
  show ?thesis
    using r a r' l b by simp
qed

text \<open>
  C7 as stated fails on 51 points: the mean of all of them is 3, the mean of the last 50
  is 2, and the confidence returned is not the one over the last 50.
\<close>

theorem forecast_confidence_counterexample:
  "fst (forecast env_plain (SarimaFallbackService_init SarimaConfig_default) history_51 5)
     \<noteq> None
   \<and> fr_confidence (the (fst (forecast env_plain
         (SarimaFallbackService_init SarimaConfig_default) history_51 5)))
       = 8000001 / 9000001
   \<and> spec_confidence (map pt_value history_51) = 3000001 / 4000001"
proof -
  let ?svc = "SarimaFallbackService_init SarimaConfig_default"
  have "\<exists>r. fst (forecast env_plain ?svc history_51 5) = Some r"
    unfolding history_51_def
    by (rule forecast_plain_returns)
      (simp_all add: SarimaFallbackService_init_def length_concat_replicate)
  then obtain r where r: "fst (forecast env_plain ?svc history_51 5) = Some r"
    by blast
  have v: "map pt_value history_51 = 53 # concat (replicate 25 [1, 3])"
    by (simp add: history_51_def pt_value_hourly_points)
  have "fr_confidence r = 8000001 / 9000001"
    unfolding forecast_confidence_result [OF r] v forecast_confidence_unfold values_51
    by simp
  moreover have "spec_confidence (map pt_value history_51) = 3000001 / 4000001"
    unfolding v spec_confidence_def Let_def values_51 by simp
  ultimately show ?thesis
    using r by simp
qed

subsection \<open>C8: the humidity correction\<close>




subsection \<open>C9: the effects of \<open>predict\<close>\<close>

text \<open>
  C9, as amended. A call to \<^verbatim>\<open>predict\<close> leaves the service as it was but for five
  fields: \<open>use_granite\<close> and \<open>model_loaded\<close> (the lazy loading of Granite),
  \<open>useFallback\<close>, and in the fallback service the seasonal period \<open>s\<close> of the
  configuration and the fitted model. In particular the MAE tracking of both services
  (the two FIFOs and the current MAE) and the flag \<open>fallbackActive\<close> are unchanged.
  \<open>useFallback\<close> is never reset by \<^verbatim>\<open>predict\<close>, and \<open>s\<close> is unchanged when
  \<open>autoSelectParams\<close> is off.
\<close>

theorem predict_frame:
  "let st' = snd (predict e st data_history aggregateData exogenousData)
   in st' = st\<lparr>use_granite := use_granite st',
                model_loaded := model_loaded st',
                useFallback := useFallback st',
                sarimaFallback :=
                  (sarimaFallback st)
                    \<lparr>config := (config (sarimaFallback st))
                                 \<lparr>cfg_s := cfg_s (config (sarimaFallback st'))\<rparr>,
                     modelFitted := modelFitted (sarimaFallback st')\<rparr>\<rparr>
    \<and> fs_currentMae st' = fs_currentMae st
    \<and> fs_predictionHistory st' = fs_predictionHistory st
    \<and> fs_actualHistory st' = fs_actualHistory st
    \<and> currentMae (sarimaFallback st') = currentMae (sarimaFallback st)
    \<and> predictionHistory (sarimaFallback st') = predictionHistory (sarimaFallback st)
    \<and> actualHistory (sarimaFallback st') = actualHistory (sarimaFallback st)
    \<and> fallbackActive (sarimaFallback st') = fallbackActive (sarimaFallback st)
    \<and> (useFallback st \<longrightarrow> useFallback st')
    \<and> (\<not> autoSelectParams (config (sarimaFallback st)) \<longrightarrow>
          cfg_s (config (sarimaFallback st')) = cfg_s (config (sarimaFallback st)))"
proof -
  define st' where "st' = snd (predict e st data_history aggregateData exogenousData)"
  have w: "st' = st\<lparr>use_granite := use_granite st',
                model_loaded := model_loaded st',
                useFallback := useFallback st',
                sarimaFallback :=
                  (sarimaFallback st)
                    \<lparr>config := (config (sarimaFallback st))
                                 \<lparr>cfg_s := cfg_s (config (sarimaFallback st'))\<rparr>,
                     modelFitted := modelFitted (sarimaFallback st')\<rparr>\<rparr>"
    using predict_writes_predict [of st e data_history aggregateData exogenousData]
    unfolding predict_writes_def st'_def .
  have f: "fs_currentMae st' = fs_currentMae st"
    "fs_predictionHistory st' = fs_predictionHistory st"
    "fs_actualHistory st' = fs_actualHistory st"
    "currentMae (sarimaFallback st') = currentMae (sarimaFallback st)"
    "predictionHistory (sarimaFallback st') = predictionHistory (sarimaFallback st)"
    "actualHistory (sarimaFallback st') = actualHistory (sarimaFallback st)"
    "fallbackActive (sarimaFallback st') = fallbackActive (sarimaFallback st)"
    by (subst w, simp)+
  show ?thesis
    unfolding Let_def st'_def [symmetric]
    using w f predict_monotone [of st e data_history aggregateData exogenousData]
    unfolding st'_def [symmetric] by blast
qed

theorem predict_frame_witness:
  "useFallback service_plain
   \<and> useFallback (snd (predict env_plain service_plain history_10 True None))
   \<and> fs_currentMae (snd (predict env_plain service_plain history_10 True None)) = 0
   \<and> \<not> autoSelectParams (config (sarimaFallback
         (service_plain\<lparr>sarimaFallback := SarimaFallbackService_init config_period_0
                           \<lparr>config := config_period_0\<lparr>autoSelectParams := False\<rparr>\<rparr>\<rparr>)))
   \<and> cfg_s (config (sarimaFallback (snd (predict env_plain
         (service_plain\<lparr>sarimaFallback := SarimaFallbackService_init config_period_0
                           \<lparr>config := config_period_0\<lparr>autoSelectParams := False\<rparr>\<rparr>\<rparr>)
         history_10 True None)))) = 0"
  using predict_frame [of env_plain service_plain history_10 True None]
    predict_frame [of env_plain
      "service_plain\<lparr>sarimaFallback := SarimaFallbackService_init config_period_0
                        \<lparr>config := config_period_0\<lparr>autoSelectParams := False\<rparr>\<rparr>\<rparr>"
      history_10 True None]
  by (simp add: Let_def service_plain_def ForecastService_init_def env_plain_def
      config_period_0_def SarimaConfig_default_def)

text \<open>
  C9 as stated fails. With Granite installed and ten points of history (less than the
  context of 168), the SARIMA fallback gives the forecast and \<^verbatim>\<open>predict\<close> sets
  \<open>useFallback\<close>, which was \<open>False\<close>. On 52 points of a wave of period 4 the
  detection finds the period 4, and \<^verbatim>\<open>predict\<close> leaves it in the configuration, whose
  period was 24.
\<close>

theorem predict_frame_counterexample:
  "\<not> useFallback service_granite
   \<and> useFallback (snd (predict env_granite service_granite history_10 True None))
   \<and> fst (predict env_granite service_granite history_10 True None) \<noteq> None
   \<and> cfg_s (config (sarimaFallback service_plain)) = 24
   \<and> cfg_s (config (sarimaFallback
         (snd (predict env_plain service_plain history_52 True None)))) = 4"
proof -
  have "\<exists>r. fst (predict env_granite service_granite history_10 True None) = Some r
      \<and> model r = ''SARIMA''
      \<and> useFallback (snd (predict env_granite service_granite history_10 True None))"
    unfolding history_10_def
    by (rule predict_clock_sarima)
      (simp_all add: clock_env_plain service_granite_def ForecastService_init_def
        SarimaFallbackService_init_def aggregates_def length_hourly_points)
  moreover have "\<not> useFallback service_granite"
    by (simp add: service_granite_def ForecastService_init_def env_granite_def env_plain_def)
  moreover have s0: "cfg_s (config (sarimaFallback service_plain)) = 24"
    by (simp add: service_plain_def ForecastService_init_def SarimaFallbackService_init_def)
  moreover have "cfg_s (config (sarimaFallback
         (snd (predict env_plain service_plain history_52 True None)))) = 4"
  proof -
    let ?svc = "sarimaFallback service_plain"
    have len: "length history_52 = 52"
      by (simp add: history_52_def length_hourly_points len_wave)
    have wd: "working_data env_plain service_plain history_52 True = history_52"
      by (simp add: working_data_def aggregates_def len service_plain_def
          ForecastService_init_def)
    have run: "running ?svc" and auto: "autoSelectParams (config ?svc)"
      by (simp_all add: service_plain_def ForecastService_init_def
          SarimaFallbackService_init_def)
    have ug: "\<not> use_granite service_plain"
      by (simp add: service_plain_def ForecastService_init_def env_plain_def)
    have "\<exists>r. fst (forecast env_plain ?svc history_52
        (min (forecast_horizon service_plain) 24)) = Some r"
      unfolding history_52_def
      by (rule forecast_plain_returns) (simp_all add: run len_wave)
    then have "snd (predict env_plain service_plain history_52 True None) =
        service_plain\<lparr>sarimaFallback := snd (forecast env_plain ?svc history_52
            (min (forecast_horizon service_plain) 24)),
          useFallback := True\<rparr>"
      using predict_sarima_state [of history_52 service_plain env_plain True None]
      unfolding wd by (auto simp: len ug)
    moreover have "config (snd (forecast env_plain ?svc history_52
            (min (forecast_horizon service_plain) 24)))
        = config (select_season env_plain ?svc wave_52)"
      using forecast_state_parsed [OF run, of history_52 env_plain, OF _ _ clock_env_plain(6)]
        parse_hourly_points [of wave_52]
      by (simp add: len history_52_def [symmetric] len_wave
          pt_value_hourly_points [of wave_52, folded history_52_def])
    moreover have "cfg_s (config (select_season env_plain ?svc wave_52)) = 4"
      using auto s0 by (simp add: select_season_def Let_def detect_wave)
    ultimately show ?thesis by simp
  qed
  ultimately show ?thesis by auto
qed

subsection \<open>C10: the flag of the humidity correction\<close>

text \<open>
  C10. Whenever \<^verbatim>\<open>predict\<close> is called with exogenous data and returns a result, the
  result's \<open>humidity_correction_applied\<close> is \<open>True\<close>. When the exogenous series has
  fewer than 10 points, \<^verbatim>\<open>applyHumidityCorrection\<close> returns its predictions unchanged,
  and the result is, but for the flag, the result of the call without exogenous data.
\<close>

theorem predict_humidity_flag:
  assumes "fst (predict e st data_history aggregateData (Some exogenousData)) = Some r"
  shows "humidity_correction_applied r
       \<and> (length exogenousData < 10 \<longrightarrow>
            applyHumidityCorrection e tempPredictions exogenousData baseTimestamp
              = tempPredictions
          \<and> fst (predict e st data_history aggregateData None)
              = Some (r\<lparr>humidity_correction_applied := False\<rparr>))"
proof -
  let ?steps = "min (forecast_horizon st) 24"
  let ?wd = "working_data e st data_history aggregateData"
  obtain fv m st' where
    sel: "select_forecast e st ?wd ?steps = (Some fv, m, st')" and
    fin: "predict_finish e st' data_history ?wd (aggregates st data_history aggregateData)
            ?steps fv m (Some exogenousData) = Some r"
    using predict_result [OF assms] by blast
  have len: "10 \<le> length data_history"
    using assms by (cases "10 \<le> length data_history") (simp_all add: predict_def)
  have flag: "humidity_correction_applied r"
    using predict_finish_result [OF fin] by simp
  have "fst (predict e st data_history aggregateData None)
      = Some (r\<lparr>humidity_correction_applied := False\<rparr>)"
    if "length exogenousData < 10"
    unfolding predict_unfold [OF len] Let_def sel
    using predict_finish_short [OF that fin] by simp
  then show ?thesis
    using flag by (simp add: applyHumidityCorrection_short)
qed

theorem predict_humidity_flag_witness:
  "length (take 9 humidity_90) < 10
   \<and> fst (predict env_plain service_plain history_10 True (Some (take 9 humidity_90))) \<noteq> None
   \<and> humidity_correction_applied
        (the (fst (predict env_plain service_plain history_10 True (Some (take 9 humidity_90)))))
   \<and> fst (predict env_plain service_plain history_10 True None)
       = Some ((the (fst (predict env_plain service_plain history_10 True
                  (Some (take 9 humidity_90)))))\<lparr>humidity_correction_applied := False\<rparr>)"
proof -
  have "\<exists>r. fst (predict env_plain service_plain history_10 True (Some (take 9 humidity_90)))
        = Some r \<and> model r = ''SARIMA''
      \<and> useFallback (snd (predict env_plain service_plain history_10 True
            (Some (take 9 humidity_90))))"
    unfolding history_10_def
    by (rule predict_clock_sarima)
      (simp_all add: clock_env_plain service_plain_def ForecastService_init_def
        SarimaFallbackService_init_def env_plain_def aggregates_def length_hourly_points)
  then obtain r where
    r: "fst (predict env_plain service_plain history_10 True (Some (take 9 humidity_90))) = Some r"
    by blast
  have l: "length (take 9 humidity_90) < 10"
    by simp
  show ?thesis
    using predict_humidity_flag [OF r, of "[]" 0] l by (simp add: r)
qed

end
